theory Spec2Isabelle
  imports Main
begin

section \<open>Values that cross the stages\<close>

subsection \<open>JSON values and byte strings\<close>

text \<open>
  The three stages exchange byte strings that are JSON texts produced by
  \<^verbatim>\<open>json.Marshal\<close> and read by \<^verbatim>\<open>json.Unmarshal\<close>.  The text level of
  \<^verbatim>\<open>encoding/json\<close> (white space, escapes, the scanner) is not modelled: a byte
  string that is a JSON text is represented by the JSON value it denotes, and any
  other byte string (an image, a truncated body) by its bytes.  The strings of a
  JSON value are text: every string the stages handle is valid UTF-8 (they come
  out of \<^verbatim>\<open>json.Unmarshal\<close>, the Secret Manager and the Vision client).  What
  \<^verbatim>\<open>json.Marshal\<close> writes for a Go string that is not valid UTF-8 is modelled
  further down, with the coercion it applies.
  The members of an object are kept in the order of the text, duplicates included.
\<close>

datatype json =
    Null
  | Bool bool
  | Number string
  | String string
  | Array "json list"
  | Object "(string \<times> json) list"

datatype bytes =
    NotJSON string
  | JSONText json

subsection \<open>Errors and panics\<close>

text \<open>
  A Go \<^verbatim>\<open>error\<close> is a value.  \<open>Wrapped p e\<close> is \<^verbatim>\<open>fmt.Errorf(p + "%w", e)\<close>,
  \<open>Errorf s\<close> is \<^verbatim>\<open>fmt.Errorf(s)\<close> without a cause, \<open>ServiceError m\<close> is an error
  returned by one of the client libraries (broker, secret store, HTTP transport,
  classifier), \<open>SyntaxError\<close> and \<open>UnmarshalTypeError v t\<close> are the two errors of
  \<^verbatim>\<open>json.Unmarshal\<close> (\<open>v\<close> names the JSON value, \<open>t\<close> the Go type).
  A call that panics does not return at all: \<open>Panicked\<close>.
\<close>

datatype error =
    SyntaxError
  | UnmarshalTypeError string string
  | ServiceError string
  | Wrapped string error
  | Errorf string

datatype panic = NilDereference

datatype 'a result = Returned 'a | Panicked panic

subsection \<open>The structs of the source\<close>

text \<open>
  A Go slice is \<^verbatim>\<open>nil\<close> or a sequence of elements: \<open>None\<close> is the nil slice,
  \<open>Some []\<close> the empty slice that is not nil.  \<open>elems\<close> is what \<^verbatim>\<open>range\<close>
  iterates over and \<open>append_slice\<close> is Go's \<^verbatim>\<open>append(s, x)\<close>.
\<close>

type_synonym 'a slice = "'a list option"

definition elems :: "'a slice \<Rightarrow> 'a list" where
  "elems s = (case s of None \<Rightarrow> [] | Some xs \<Rightarrow> xs)"

definition append_slice :: "'a slice \<Rightarrow> 'a \<Rightarrow> 'a slice" where
  "append_slice s x = Some (elems s @ [x])"

record lineEventMessage =
  ID :: string

record lineEvent =
  ReplyToken :: string
  LineEventMessage :: lineEventMessage

record lineWebHook =
  Events :: "lineEvent slice"

record processMessage =
  pm_ImageID :: string
  pm_ReplyToken :: string

record sendMessage =
  sm_ReplyToken :: string
  sm_Labels :: "string slice"

record pubSubMessage =
  Data :: bytes

record messagePublishedData =
  Message :: pubSubMessage

record replyFormatMessage =
  rfm_Type :: string
  rfm_Text :: string

record replyFormat =
  rf_ReplyToken :: string
  rf_Messages :: "replyFormatMessage slice"

section \<open>The part of \<^verbatim>\<open>encoding/json\<close> the structs use\<close>

subsection \<open>Matching a member name to a struct field\<close>

text \<open>
  \<^verbatim>\<open>json.Unmarshal\<close> matches the name of an object member to a field by its JSON
  key, "preferring an exact match but also accepting a case-insensitive match".
  The case-insensitive comparison is Unicode simple case folding.  All field keys
  of this program are ASCII letters, and the only characters outside ASCII that
  fold to an ASCII letter are U+017F (long s, bytes C5 BF) and U+212A (Kelvin
  sign, bytes E2 84 AA): \<open>foldName\<close> maps those two and the ASCII lower-case
  letters to the upper-case letter and leaves every other byte as it is.
\<close>

definition toUpper :: "char \<Rightarrow> char" where
  "toUpper c = (let n = (of_char c :: nat) in
     if 97 \<le> n \<and> n \<le> 122 then char_of (n - 32) else c)"

fun foldName :: "string \<Rightarrow> string" where
  "foldName [] = []"
| "foldName (c # cs) =
     (case cs of
        [] \<Rightarrow> [toUpper c]
      | d # ds \<Rightarrow>
          if c = CHR 0xC5 \<and> d = CHR 0xBF then CHR ''S'' # foldName ds
          else (case ds of
                  [] \<Rightarrow> toUpper c # foldName cs
                | e # es \<Rightarrow>
                    if c = CHR 0xE2 \<and> d = CHR 0x84 \<and> e = CHR 0xAA
                    then CHR ''K'' # foldName es
                    else toUpper c # foldName cs))"

definition equalFold :: "string \<Rightarrow> string \<Rightarrow> bool" where
  "equalFold name key = (foldName name = foldName key)"

text \<open>
  \<open>findField names key\<close>: the field (by its JSON key) that a member named \<open>key\<close>
  is decoded into: the exact name when there is one, else the first field, in the
  order of declaration, whose name is equal under folding; \<open>None\<close> when the
  member is skipped.
\<close>

definition findField :: "string list \<Rightarrow> string \<Rightarrow> string option" where
  "findField names key =
     (if key \<in> set names then Some key
      else find (\<lambda>name. equalFold name key) names)"

subsection \<open>Decoding\<close>

text \<open>
  A value that does not fit the Go type is not fatal to the decoder: it records
  an \<^verbatim>\<open>UnmarshalTypeError\<close>, leaves the target as it is and goes on;
  \<^verbatim>\<open>Unmarshal\<close> returns the earliest error recorded.  A decoder is therefore a
  function from the JSON value and the target's current value to the target's new
  value and the error recorded, if any.  \<^verbatim>\<open>null\<close> leaves a string or a struct
  unchanged and sets a slice to nil.
\<close>

definition saveError :: "error option \<Rightarrow> error option \<Rightarrow> error option" where
  "saveError saved e = (case saved of None \<Rightarrow> e | Some s \<Rightarrow> Some s)"

fun valueKind :: "json \<Rightarrow> string" where
  "valueKind Null = ''null''"
| "valueKind (Bool b) = ''bool''"
| "valueKind (Number n) = ''number''"
| "valueKind (String s) = ''string''"
| "valueKind (Array xs) = ''array''"
| "valueKind (Object ms) = ''object''"

fun decode_string :: "json \<Rightarrow> string \<Rightarrow> string \<times> error option" where
  "decode_string (String s) old = (s, None)"
| "decode_string Null old = (old, None)"
| "decode_string j old = (old, Some (UnmarshalTypeError (valueKind j) ''string''))"

text \<open>
  A struct: the members are decoded one after the other, each into the field it
  matches, so a name that occurs twice is decoded twice into the same field.
  \<open>decode_members step ms v\<close> runs \<open>step\<close> (the decoding of one member into the
  struct) over the members.
\<close>

fun decode_members ::
  "(string \<Rightarrow> json \<Rightarrow> 'a \<Rightarrow> 'a \<times> error option) \<Rightarrow> (string \<times> json) list \<Rightarrow> 'a
     \<Rightarrow> 'a \<times> error option" where
  "decode_members step [] v = (v, None)"
| "decode_members step ((key, x) # ms) v =
     (let (v1, e1) = step key x v;
          (v2, e2) = decode_members step ms v1
      in (v2, saveError e1 e2))"

definition decode_struct ::
  "string \<Rightarrow> (string \<Rightarrow> json \<Rightarrow> 'a \<Rightarrow> 'a \<times> error option) \<Rightarrow> json \<Rightarrow> 'a \<Rightarrow> 'a \<times> error option" where
  "decode_struct goType step j v =
     (case j of
        Object ms \<Rightarrow> decode_members step ms v
      | Null \<Rightarrow> (v, None)
      | _ \<Rightarrow> (v, Some (UnmarshalTypeError (valueKind j) goType)))"

text \<open>
  A slice: the \<open>i\<close>-th element of the array is decoded into the \<open>i\<close>-th cell of
  the slice's backing array when the slice already has one (it has when the
  member occurs a second time), else into a zero value.  \<open>cells\<close> are the cells
  that hold a value from an earlier decoding: the elements of the slice followed
  by those beyond its length.  An empty array gives a fresh empty slice.
\<close>

fun decode_elems ::
  "(json \<Rightarrow> 'a \<Rightarrow> 'a \<times> error option) \<Rightarrow> 'a \<Rightarrow> json list \<Rightarrow> 'a list
     \<Rightarrow> 'a list \<times> error option" where
  "decode_elems dec zero [] cells = ([], None)"
| "decode_elems dec zero (x # xs) cells =
     (let (v, e1) = dec x (case cells of [] \<Rightarrow> zero | c # cs \<Rightarrow> c);
          (vs, e2) = decode_elems dec zero xs (tl cells)
      in (v # vs, saveError e1 e2))"

definition decode_slice ::
  "string \<Rightarrow> (json \<Rightarrow> 'a \<Rightarrow> 'a \<times> error option) \<Rightarrow> 'a \<Rightarrow> json \<Rightarrow> 'a slice \<times> 'a list
     \<Rightarrow> ('a slice \<times> 'a list) \<times> error option" where
  "decode_slice goType dec zero j s =
     (case j of
        Array xs \<Rightarrow>
          (let cells = elems (fst s) @ snd s;
               (vs, e) = decode_elems dec zero xs cells
           in (if xs = [] then (Some [], []) else (Some vs, drop (length vs) cells), e))
      | Null \<Rightarrow> ((None, []), None)
      | _ \<Rightarrow> (s, Some (UnmarshalTypeError (valueKind j) goType)))"

subsection \<open>The decoders of the program's structs\<close>

text \<open>
  One decoder per struct of the source, following its field tags:
  \<^verbatim>\<open>lineWebHook{Events `json:"events"`}\<close>,
  \<^verbatim>\<open>lineEvent{ReplyToken `json:"replyToken"`, LineEventMessage `json:"message"`}\<close>,
  \<^verbatim>\<open>lineEventMessage{ID `json:"id"`}\<close>, and the untagged
  \<^verbatim>\<open>processMessage{ImageID, ReplyToken}\<close> and \<^verbatim>\<open>sendMessage{ReplyToken, Labels}\<close>,
  whose keys are the field names.  A struct with a slice field is decoded together
  with the cells of that slice's backing array.
\<close>

definition zero_lineEventMessage :: lineEventMessage where
  "zero_lineEventMessage = \<lparr>ID = ''''\<rparr>"

definition zero_lineEvent :: lineEvent where
  "zero_lineEvent = \<lparr>ReplyToken = '''', LineEventMessage = zero_lineEventMessage\<rparr>"

definition zero_lineWebHook :: lineWebHook where
  "zero_lineWebHook = \<lparr>Events = None\<rparr>"

definition zero_processMessage :: processMessage where
  "zero_processMessage = \<lparr>pm_ImageID = '''', pm_ReplyToken = ''''\<rparr>"

definition zero_sendMessage :: sendMessage where
  "zero_sendMessage = \<lparr>sm_ReplyToken = '''', sm_Labels = None\<rparr>"

definition step_lineEventMessage ::
  "string \<Rightarrow> json \<Rightarrow> lineEventMessage \<Rightarrow> lineEventMessage \<times> error option" where
  "step_lineEventMessage key x v =
     (case findField [''id''] key of
        None \<Rightarrow> (v, None)
      | Some f \<Rightarrow> (let (s, e) = decode_string x (ID v) in (v\<lparr>ID := s\<rparr>, e)))"

definition decode_lineEventMessage ::
  "json \<Rightarrow> lineEventMessage \<Rightarrow> lineEventMessage \<times> error option" where
  "decode_lineEventMessage = decode_struct ''function.lineEventMessage'' step_lineEventMessage"

definition step_lineEvent :: "string \<Rightarrow> json \<Rightarrow> lineEvent \<Rightarrow> lineEvent \<times> error option" where
  "step_lineEvent key x v =
     (case findField [''replyToken'', ''message''] key of
        None \<Rightarrow> (v, None)
      | Some f \<Rightarrow>
          if f = ''replyToken''
          then (let (s, e) = decode_string x (ReplyToken v) in (v\<lparr>ReplyToken := s\<rparr>, e))
          else (let (m, e) = decode_lineEventMessage x (LineEventMessage v)
                in (v\<lparr>LineEventMessage := m\<rparr>, e)))"

definition decode_lineEvent :: "json \<Rightarrow> lineEvent \<Rightarrow> lineEvent \<times> error option" where
  "decode_lineEvent = decode_struct ''function.lineEvent'' step_lineEvent"

definition step_lineWebHook ::
  "string \<Rightarrow> json \<Rightarrow> lineWebHook \<times> lineEvent list
     \<Rightarrow> (lineWebHook \<times> lineEvent list) \<times> error option" where
  "step_lineWebHook key x v =
     (case findField [''events''] key of
        None \<Rightarrow> (v, None)
      | Some f \<Rightarrow>
          (let (s, e) = decode_slice ''[]function.lineEvent'' decode_lineEvent zero_lineEvent x
                          (Events (fst v), snd v)
           in (((fst v)\<lparr>Events := fst s\<rparr>, snd s), e)))"

definition decode_lineWebHook ::
  "json \<Rightarrow> lineWebHook \<times> lineEvent list \<Rightarrow> (lineWebHook \<times> lineEvent list) \<times> error option" where
  "decode_lineWebHook = decode_struct ''function.lineWebHook'' step_lineWebHook"

definition step_processMessage ::
  "string \<Rightarrow> json \<Rightarrow> processMessage \<Rightarrow> processMessage \<times> error option" where
  "step_processMessage key x v =
     (case findField [''ImageID'', ''ReplyToken''] key of
        None \<Rightarrow> (v, None)
      | Some f \<Rightarrow>
          if f = ''ImageID''
          then (let (s, e) = decode_string x (pm_ImageID v) in (v\<lparr>pm_ImageID := s\<rparr>, e))
          else (let (s, e) = decode_string x (pm_ReplyToken v) in (v\<lparr>pm_ReplyToken := s\<rparr>, e)))"

definition decode_processMessage ::
  "json \<Rightarrow> processMessage \<Rightarrow> processMessage \<times> error option" where
  "decode_processMessage = decode_struct ''function.processMessage'' step_processMessage"

definition step_sendMessage ::
  "string \<Rightarrow> json \<Rightarrow> sendMessage \<times> string list \<Rightarrow> (sendMessage \<times> string list) \<times> error option" where
  "step_sendMessage key x v =
     (case findField [''ReplyToken'', ''Labels''] key of
        None \<Rightarrow> (v, None)
      | Some f \<Rightarrow>
          if f = ''ReplyToken''
          then (let (s, e) = decode_string x (sm_ReplyToken (fst v))
                in (((fst v)\<lparr>sm_ReplyToken := s\<rparr>, snd v), e))
          else (let (s, e) = decode_slice ''[]string'' decode_string '''' x
                               (sm_Labels (fst v), snd v)
                in (((fst v)\<lparr>sm_Labels := fst s\<rparr>, snd s), e)))"

definition decode_sendMessage ::
  "json \<Rightarrow> sendMessage \<times> string list \<Rightarrow> (sendMessage \<times> string list) \<times> error option" where
  "decode_sendMessage = decode_struct ''function.sendMessage'' step_sendMessage"

subsection \<open>\<^verbatim>\<open>json.Unmarshal\<close> and \<^verbatim>\<open>json.Marshal\<close> at the types of the source\<close>

text \<open>
  \<^verbatim>\<open>json.Unmarshal(data, &v)\<close> with \<open>v\<close> a freshly declared variable, as at every
  call of the source: a syntax error when the bytes are not a JSON text, else the
  decoding into the zero value, and the earliest type error if there was one.
\<close>

definition json_Unmarshal_lineWebHook :: "bytes \<Rightarrow> error + lineWebHook" where
  "json_Unmarshal_lineWebHook data =
     (case data of
        NotJSON b \<Rightarrow> Inl SyntaxError
      | JSONText j \<Rightarrow>
          (case decode_lineWebHook j (zero_lineWebHook, []) of
             (v, None) \<Rightarrow> Inr (fst v)
           | (v, Some e) \<Rightarrow> Inl e))"

definition json_Unmarshal_processMessage :: "bytes \<Rightarrow> error + processMessage" where
  "json_Unmarshal_processMessage data =
     (case data of
        NotJSON b \<Rightarrow> Inl SyntaxError
      | JSONText j \<Rightarrow>
          (case decode_processMessage j zero_processMessage of
             (v, None) \<Rightarrow> Inr v
           | (v, Some e) \<Rightarrow> Inl e))"

definition json_Unmarshal_sendMessage :: "bytes \<Rightarrow> error + sendMessage" where
  "json_Unmarshal_sendMessage data =
     (case data of
        NotJSON b \<Rightarrow> Inl SyntaxError
      | JSONText j \<Rightarrow>
          (case decode_sendMessage j (zero_sendMessage, []) of
             (v, None) \<Rightarrow> Inr (fst v)
           | (v, Some e) \<Rightarrow> Inl e))"

text \<open>
  \<^verbatim>\<open>json.Marshal\<close> writes the exported fields in the order of declaration under
  their keys; a nil slice is written as \<^verbatim>\<open>null\<close>.  It has no error at these types;
  the result keeps the type of the Go function, since the source tests it.
\<close>

definition encode_strings :: "string slice \<Rightarrow> json" where
  "encode_strings s = (case s of None \<Rightarrow> Null | Some xs \<Rightarrow> Array (map String xs))"

definition json_Marshal_processMessage :: "processMessage \<Rightarrow> error + bytes" where
  "json_Marshal_processMessage msg =
     Inr (JSONText (Object [(''ImageID'', String (pm_ImageID msg)),
                            (''ReplyToken'', String (pm_ReplyToken msg))]))"

definition json_Marshal_sendMessage :: "sendMessage \<Rightarrow> error + bytes" where
  "json_Marshal_sendMessage msg =
     Inr (JSONText (Object [(''ReplyToken'', String (sm_ReplyToken msg)),
                            (''Labels'', encode_strings (sm_Labels msg))]))"

definition encode_replyFormatMessage :: "replyFormatMessage \<Rightarrow> json" where
  "encode_replyFormatMessage m =
     Object [(''type'', String (rfm_Type m)), (''text'', String (rfm_Text m))]"

definition json_Marshal_replyFormat :: "replyFormat \<Rightarrow> error + bytes" where
  "json_Marshal_replyFormat reply =
     Inr (JSONText (Object [(''replyToken'', String (rf_ReplyToken reply)),
                            (''messages'',
                             (case rf_Messages reply of
                                None \<Rightarrow> Null
                              | Some ms \<Rightarrow> Array (map encode_replyFormatMessage ms)))]))"

section \<open>The world outside the stages\<close>

text \<open>
  What the external collaborators answer is a parameter of every stage: the
  process environment, the Pub/Sub client, the Secret Manager client, the HTTP
  transport with the URL parser behind \<^verbatim>\<open>http.NewRequest\<close>, and the Vision client.
  \<open>pubsub_Get topic data\<close> is what \<^verbatim>\<open>topic.Publish(ctx, msg)\<close> followed by
  \<^verbatim>\<open>result.Get(ctx)\<close> gives: the server's id of the message, or an error.
  \<open>AccessSecretVersion name\<close> gives the payload data of the secret version and
  \<open>DetectLabels img maxResults\<close> the annotations found, of which the source reads
  the \<^verbatim>\<open>Description\<close> only.  A client request has a method, a URL, its headers in
  the order they were added and a body, \<open>None\<close> when the body is nil.
\<close>

record EntityAnnotation =
  Description :: string

record request =
  Method :: string
  URL :: string
  Header :: "(string \<times> string) list"
  Body :: "bytes option"

record response =
  StatusCode :: nat
  resp_Body :: bytes

record env =
  os_Getenv :: "string \<Rightarrow> string"
  pubsub_NewClient :: "string \<Rightarrow> error option"
  pubsub_Get :: "string \<Rightarrow> bytes \<Rightarrow> error + string"
  secretmanager_NewClient :: "error option"
  AccessSecretVersion :: "string \<Rightarrow> error + string"
  url_Parse :: "string \<Rightarrow> error option"
  http_Do :: "request \<Rightarrow> error + response"
  vision_NewImageAnnotatorClient :: "error option"
  DetectLabels :: "bytes \<Rightarrow> nat \<Rightarrow> error + EntityAnnotation list"

text \<open>
  What the stages do to the outside is recorded in the \<open>world\<close>: the messages the
  broker has acknowledged, with their topic, and the HTTP requests handed to the
  transport, both in the order they were made.
\<close>

record world =
  published :: "(string \<times> bytes) list"
  requests :: "request list"

text \<open>
  The webhook request as the receive stage sees it: reading its body to the end
  gives the bytes or an error (the body of a server request is never nil).  What
  the handler writes to the \<^verbatim>\<open>http.ResponseWriter\<close> is the status and the body;
  \<open>ErrorText e\<close> is the body \<^verbatim>\<open>[]byte(e.Error())\<close>.
\<close>

record server_request =
  r_Body :: "error + bytes"

datatype content = Literal string | ErrorText error

record written =
  status :: nat
  body :: content

section \<open>Helpers of the source\<close>

text \<open>
  The library calls of the source that are not answers of a collaborator:
  \<^verbatim>\<open>strings.Join\<close>; \<^verbatim>\<open>http.NewRequest\<close>, which parses the URL and stores the reader it
  is given as the body of the request, so that a request made with a nil reader
  has a nil \<^verbatim>\<open>Body\<close>; \<^verbatim>\<open>Header.Add\<close> (both keys the source adds are in canonical
  form already); and \<^verbatim>\<open>io.ReadAll\<close> on the body of a client request, which calls
  \<^verbatim>\<open>Read\<close> on its argument and therefore panics on a nil reader.  Then the
  functions of the source, in the order \<^verbatim>\<open>returnError\<close>, \<^verbatim>\<open>getSecret\<close>,
  \<^verbatim>\<open>downloadImage\<close>, \<^verbatim>\<open>analyzeImage\<close>, \<^verbatim>\<open>sendReply\<close>.  An outbound request is
  recorded in the world when it is handed to \<^verbatim>\<open>http.DefaultClient.Do\<close>.
\<close>

fun strings_Join :: "string list \<Rightarrow> string \<Rightarrow> string" where
  "strings_Join [] sep = ''''"
| "strings_Join [x] sep = x"
| "strings_Join (x # y # ys) sep = x @ sep @ strings_Join (y # ys) sep"

definition http_NewRequest :: "env \<Rightarrow> string \<Rightarrow> string \<Rightarrow> bytes option \<Rightarrow> error + request" where
  "http_NewRequest env method url rdr =
     (case url_Parse env url of
        Some err \<Rightarrow> Inl err
      | None \<Rightarrow> Inr \<lparr>Method = method, URL = url, Header = [], Body = rdr\<rparr>)"

definition Header_Add :: "(string \<times> string) list \<Rightarrow> string \<Rightarrow> string \<Rightarrow> (string \<times> string) list" where
  "Header_Add h key val = h @ [(key, val)]"

definition io_ReadAll :: "bytes option \<Rightarrow> (error + bytes) result" where
  "io_ReadAll rdr = (case rdr of None \<Rightarrow> Panicked NilDereference | Some b \<Rightarrow> Returned (Inr b))"

definition returnError :: "nat \<Rightarrow> error \<Rightarrow> written" where
  "returnError code err = \<lparr>status = code, body = ErrorText err\<rparr>"

definition getSecret :: "env \<Rightarrow> string \<Rightarrow> string \<Rightarrow> error + string" where
  "getSecret env projectID secretName =
     (case secretmanager_NewClient env of
        Some err \<Rightarrow> Inl (Wrapped ''secretmanager.NewClient failed; '' err)
      | None \<Rightarrow>
          (case AccessSecretVersion env
                  (''projects/'' @ projectID @ ''/secrets/'' @ secretName @ ''/versions/latest'') of
             Inl err \<Rightarrow> Inl (Wrapped ''secretmanager.Client.AccessSecretVersion failed; '' err)
           | Inr payload \<Rightarrow> Inr payload))"

definition downloadImage :: "env \<Rightarrow> string \<Rightarrow> string \<Rightarrow> world \<Rightarrow> (error + bytes) result \<times> world" where
  "downloadImage env channelAccessToken imageID w =
     (let url = ''https://api-data.line.me/v2/bot/message/'' @ imageID @ ''/content'' in
      case http_NewRequest env ''GET'' url None of
        Inl err \<Rightarrow> (Returned (Inl (Wrapped ''http.NewRequest failed; '' err)), w)
      | Inr req0 \<Rightarrow>
          (let req1 = req0\<lparr>Header := []\<rparr>;
               req = req1\<lparr>Header := Header_Add (Header req1) ''Authorization''
                                         (''Bearer '' @ channelAccessToken)\<rparr>;
               w1 = w\<lparr>requests := requests w @ [req]\<rparr>
           in case http_Do env req of
                Inl err \<Rightarrow> (Returned (Inl (Wrapped ''http.DefaultClient.Get failed; '' err)), w1)
              | Inr resp \<Rightarrow>
                  (case io_ReadAll (Body req) of
                     Panicked p \<Rightarrow> (Panicked p, w1)
                   | Returned (Inl err) \<Rightarrow> (Returned (Inl (Wrapped ''io.ReadAll failed; '' err)), w1)
                   | Returned (Inr respBytes) \<Rightarrow> (Returned (Inr respBytes), w1))))"

definition vision_NewImageFromReader :: "bytes \<Rightarrow> error + bytes" where
  "vision_NewImageFromReader imageBytes = Inr imageBytes"

definition analyzeImage :: "env \<Rightarrow> bytes \<Rightarrow> error + string slice" where
  "analyzeImage env imageBytes =
     (case vision_NewImageAnnotatorClient env of
        Some err \<Rightarrow> Inl (Wrapped ''vision.NewImageAnnotatorClient failed; '' err)
      | None \<Rightarrow>
          (case vision_NewImageFromReader imageBytes of
             Inl err \<Rightarrow> Inl (Wrapped ''vision.NewImageFromReader failed; '' err)
           | Inr img \<Rightarrow>
               (case DetectLabels env img 10 of
                  Inl err \<Rightarrow> Inl (Wrapped ''vision.ImageAnnotatorClient.DetectLabels failed; '' err)
                | Inr labels \<Rightarrow>
                    Inr (foldl (\<lambda>results label. append_slice results (Description label))
                               (Some []) labels))))"

definition sendReply :: "env \<Rightarrow> string \<Rightarrow> string \<Rightarrow> string \<Rightarrow> world \<Rightarrow> error option \<times> world" where
  "sendReply env channelAccessToken replyToken txt w =
     (let url = ''https://api.line.me/v2/bot/message/reply'';
          reply = \<lparr>rf_ReplyToken = replyToken,
                   rf_Messages = Some [\<lparr>rfm_Type = ''text'', rfm_Text = txt\<rparr>]\<rparr> in
      case json_Marshal_replyFormat reply of
        Inl err \<Rightarrow> (Some (Wrapped ''json.Marshal failed; '' err), w)
      | Inr replyBytes \<Rightarrow>
          (case http_NewRequest env ''POST'' url (Some replyBytes) of
             Inl err \<Rightarrow> (Some (Wrapped ''http.NewRequest failed; '' err), w)
           | Inr req0 \<Rightarrow>
               (let req1 = req0\<lparr>Header := []\<rparr>;
                    req2 = req1\<lparr>Header := Header_Add (Header req1) ''Authorization''
                                              (''Bearer '' @ channelAccessToken)\<rparr>;
                    req = req2\<lparr>Header := Header_Add (Header req2) ''Content-Type''
                                             ''application/json''\<rparr>;
                    w1 = w\<lparr>requests := requests w @ [req]\<rparr>
                in case http_Do env req of
                     Inl err \<Rightarrow> (Some (Wrapped ''http.DefaultClient.Get failed; '' err), w1)
                   | Inr resp \<Rightarrow> (None, w1))))"


section \<open>The three stages\<close>

text \<open>
  The CloudEvent a broker-triggered stage is invoked with, as far as the stage
  reads it: what \<^verbatim>\<open>evt.DataAs(&subMsg)\<close> gives.
\<close>

record event =
  DataAs :: "error + messagePublishedData"

abbreviation http_StatusOK :: nat where
  "http_StatusOK \<equiv> 200"

abbreviation http_StatusInternalServerError :: nat where
  "http_StatusInternalServerError \<equiv> 500"

definition httputil_DumpRequest :: "server_request \<Rightarrow> error + bytes" where
  "httputil_DumpRequest r = (case r_Body r of Inl err \<Rightarrow> Inl err | Inr b \<Rightarrow> Inr b)"

text \<open>The \<^verbatim>\<open>for _, evt := range lineWebHook.Events\<close> loop of \<^verbatim>\<open>receive\<close>: the error that
  ended it, if one did, and the world it leaves.\<close>

fun receive_loop :: "env \<Rightarrow> string \<Rightarrow> lineEvent list \<Rightarrow> world \<Rightarrow> error option \<times> world" where
  "receive_loop env topic [] w = (None, w)"
| "receive_loop env topic (evt # evts) w =
     (let msg = \<lparr>pm_ImageID = ID (LineEventMessage evt), pm_ReplyToken = ReplyToken evt\<rparr> in
      case json_Marshal_processMessage msg of
        Inl err \<Rightarrow> (Some err, w)
      | Inr msgBytes \<Rightarrow>
          (case pubsub_Get env topic msgBytes of
             Inl err \<Rightarrow> (Some err, w)
           | Inr ident \<Rightarrow>
               receive_loop env topic evts (w\<lparr>published := published w @ [(topic, msgBytes)]\<rparr>)))"

definition receive :: "env \<Rightarrow> server_request \<Rightarrow> world \<Rightarrow> written \<times> world" where
  "receive env r w =
     (case httputil_DumpRequest r of
        Inl err \<Rightarrow> (returnError http_StatusInternalServerError err, w)
      | Inr reqBytes \<Rightarrow>
          (let projectID = os_Getenv env ''PROJECT_ID'';
               waitProcessTopic = os_Getenv env ''WAIT_PROCESS_TOPIC'' in
           case r_Body r of
             Inl err \<Rightarrow> (returnError http_StatusInternalServerError err, w)
           | Inr reqBody \<Rightarrow>
               (case json_Unmarshal_lineWebHook reqBody of
                  Inl err \<Rightarrow> (returnError http_StatusInternalServerError err, w)
                | Inr lineWebHook \<Rightarrow>
                    (case pubsub_NewClient env projectID of
                       Some err \<Rightarrow> (returnError http_StatusInternalServerError err, w)
                     | None \<Rightarrow>
                         (case receive_loop env waitProcessTopic (elems (Events lineWebHook)) w of
                            (Some err, w1) \<Rightarrow> (returnError http_StatusInternalServerError err, w1)
                          | (None, w1) \<Rightarrow>
                              (\<lparr>status = http_StatusOK, body = Literal ''receive''\<rparr>, w1))))))"

definition process :: "env \<Rightarrow> event \<Rightarrow> world \<Rightarrow> error option result \<times> world" where
  "process env evt w =
     (let projectID = os_Getenv env ''PROJECT_ID'';
          waitSendTopic = os_Getenv env ''WAIT_SEND_TOPIC'' in
      case DataAs evt of
        Inl err \<Rightarrow> (Returned (Some (Wrapped ''event.Event.DataAs failed; '' err)), w)
      | Inr subMsg \<Rightarrow>
      (case json_Unmarshal_processMessage (Data (Message subMsg)) of
        Inl err \<Rightarrow> (Returned (Some (Wrapped ''json.Unmarshal failed; '' err)), w)
      | Inr procMsg \<Rightarrow>
      (case getSecret env projectID ''channel-access-token'' of
        Inl err \<Rightarrow> (Returned (Some err), w)
      | Inr channelAccessToken \<Rightarrow>
      (case downloadImage env channelAccessToken (pm_ImageID procMsg) w of
        (Panicked p, w1) \<Rightarrow> (Panicked p, w1)
      | (Returned (Inl err), w1) \<Rightarrow> (Returned (Some err), w1)
      | (Returned (Inr img), w1) \<Rightarrow>
      (case analyzeImage env img of
        Inl err \<Rightarrow> (Returned (Some err), w1)
      | Inr labels \<Rightarrow>
      (let msg = \<lparr>sm_ReplyToken = pm_ReplyToken procMsg, sm_Labels = labels\<rparr> in
       case json_Marshal_sendMessage msg of
        Inl err \<Rightarrow> (Returned (Some (Wrapped ''json.Marshal failed; '' err)), w1)
      | Inr msgBytes \<Rightarrow>
      (case pubsub_NewClient env projectID of
        Some err \<Rightarrow> (Returned (Some (Wrapped ''pubsub.NewClient failed; '' err)), w1)
      | None \<Rightarrow>
      (case pubsub_Get env waitSendTopic msgBytes of
        Inl err \<Rightarrow> (Returned (Some (Errorf '''')), w1)
      | Inr ident \<Rightarrow>
          (Returned None, w1\<lparr>published := published w1 @ [(waitSendTopic, msgBytes)]\<rparr>)))))))))"

definition send :: "env \<Rightarrow> event \<Rightarrow> world \<Rightarrow> error option \<times> world" where
  "send env evt w =
     (let projectID = os_Getenv env ''PROJECT_ID'' in
      case DataAs evt of
        Inl err \<Rightarrow> (Some (Wrapped ''event.Event.DataAs failed; '' err), w)
      | Inr subMsg \<Rightarrow>
      (case json_Unmarshal_sendMessage (Data (Message subMsg)) of
        Inl err \<Rightarrow> (Some (Wrapped ''json.Unmarshal failed; '' err), w)
      | Inr sendMsg \<Rightarrow>
      (let txt = strings_Join (elems (sm_Labels sendMsg)) [CHR 0x0A] in
       case getSecret env projectID ''channel-access-token'' of
        Inl err \<Rightarrow> (Some err, w)
      | Inr channelAccessToken \<Rightarrow>
          sendReply env channelAccessToken (sm_ReplyToken sendMsg) txt w)))"


text \<open>
  An earlier revision of the stage, \<^verbatim>\<open>src/function/function.go\<close>: its \<^verbatim>\<open>sendMessage\<close> has
  the field \<^verbatim>\<open>ReplyToken\<close> only, and its \<^verbatim>\<open>process\<close> decodes the event and then
  publishes the constant message \<^verbatim>\<open>sendMessage{ReplyToken: "dummy"}\<close>.
\<close>

record sendMessage_function_go =
  smf_ReplyToken :: string

definition json_Marshal_sendMessage_function_go :: "sendMessage_function_go \<Rightarrow> error + bytes" where
  "json_Marshal_sendMessage_function_go msg =
     Inr (JSONText (Object [(''ReplyToken'', String (smf_ReplyToken msg))]))"

definition process_function_go :: "env \<Rightarrow> event \<Rightarrow> world \<Rightarrow> error option \<times> world" where
  "process_function_go env evt w =
     (let projectID = os_Getenv env ''PROJECT_ID'';
          waitSendTopic = os_Getenv env ''WAIT_SEND_TOPIC'' in
      case DataAs evt of
        Inl err \<Rightarrow> (Some (Wrapped ''event.Event.DataAs failed; '' err), w)
      | Inr subMsg \<Rightarrow>
      (case json_Unmarshal_processMessage (Data (Message subMsg)) of
        Inl err \<Rightarrow> (Some (Wrapped ''json.Unmarshal failed; '' err), w)
      | Inr procMsg \<Rightarrow>
      (let msg = \<lparr>smf_ReplyToken = ''dummy''\<rparr> in
       case json_Marshal_sendMessage_function_go msg of
        Inl err \<Rightarrow> (Some (Wrapped ''json.Marshal failed; '' err), w)
      | Inr msgBytes \<Rightarrow>
      (case pubsub_NewClient env projectID of
        Some err \<Rightarrow> (Some (Wrapped ''pubsub.NewClient failed; '' err), w)
      | None \<Rightarrow>
      (case pubsub_Get env waitSendTopic msgBytes of
        Inl err \<Rightarrow> (Some (Errorf ''''), w)
      | Inr ident \<Rightarrow> (None, w\<lparr>published := published w @ [(waitSendTopic, msgBytes)]\<rparr>))))))"

section \<open>Vocabulary of the specification\<close>

text \<open>
  The broker payload of the ProcessMessage of an inbound event: its \<open>imageId\<close> is
  the event's \<^verbatim>\<open>message.id\<close>, its \<open>replyToken\<close> the event's.
\<close>

definition event_payload :: "lineEvent \<Rightarrow> bytes" where
  "event_payload evt =
     JSONText (Object [(''ImageID'', String (ID (LineEventMessage evt))),
                       (''ReplyToken'', String (ReplyToken evt))])"

text \<open>
  The reply text in the words of the specification: the labels "joined with a
  single newline between consecutive entries", that is the first label and then
  every further label with one newline in front of it.
\<close>

definition newline :: string where
  "newline = [CHR 0x0A]"

fun newline_joined :: "string list \<Rightarrow> string" where
  "newline_joined [] = ''''"
| "newline_joined (l # ls) = l @ concat (map (\<lambda>x. newline @ x) ls)"

text \<open>
  An event object of the webhook body in which \<^verbatim>\<open>replyToken\<close>, respectively
  \<^verbatim>\<open>message.id\<close>, is absent or the empty string: every member that is decoded
  into the field, if there is one, carries \<^verbatim>\<open>""\<close>.
\<close>

definition replyToken_absent_or_empty :: "(string \<times> json) list \<Rightarrow> bool" where
  "replyToken_absent_or_empty ms =
     list_all (\<lambda>(k, v). findField [''replyToken'', ''message''] k = Some ''replyToken''
                          \<longrightarrow> v = String '''') ms"

definition id_absent_or_empty :: "(string \<times> json) list \<Rightarrow> bool" where
  "id_absent_or_empty ms =
     list_all (\<lambda>(k, v). findField [''id''] k \<noteq> None \<longrightarrow> v = String '''') ms"

definition message_id_absent_or_empty :: "(string \<times> json) list \<Rightarrow> bool" where
  "message_id_absent_or_empty ms =
     list_all (\<lambda>(k, v). findField [''replyToken'', ''message''] k = Some ''message''
                          \<longrightarrow> (case v of Object ms' \<Rightarrow> id_absent_or_empty ms' | _ \<Rightarrow> False)) ms"

section \<open>Concrete inputs\<close>

text \<open>
  An environment in which every collaborator answers: the broker acknowledges,
  the secret store returns the token, the content endpoint answers 200 with the
  bytes of an image and the classifier finds a cat outdoors.
\<close>

definition env_ok :: env where
  "env_ok =
     \<lparr>os_Getenv = (\<lambda>k. if k = ''PROJECT_ID'' then ''proj''
                        else if k = ''WAIT_PROCESS_TOPIC'' then ''wait-process''
                        else if k = ''WAIT_SEND_TOPIC'' then ''wait-send'' else ''''),
      pubsub_NewClient = (\<lambda>p. None),
      pubsub_Get = (\<lambda>t d. Inr ''1''),
      secretmanager_NewClient = None,
      AccessSecretVersion = (\<lambda>n. Inr ''tok''),
      url_Parse = (\<lambda>u. None),
      http_Do = (\<lambda>r. Inr \<lparr>StatusCode = 200, resp_Body = NotJSON ''image-bytes''\<rparr>),
      vision_NewImageAnnotatorClient = None,
      DetectLabels = (\<lambda>b n. Inr [\<lparr>Description = ''cat''\<rparr>, \<lparr>Description = ''outdoor''\<rparr>])\<rparr>"

text \<open>The same environment with endpoints that answer every request with status 500,
  and with a classifier that finds nothing.\<close>

definition env_500 :: env where
  "env_500 = env_ok\<lparr>http_Do := (\<lambda>r. Inr \<lparr>StatusCode = 500, resp_Body = NotJSON ''Internal Server Error''\<rparr>)\<rparr>"

definition env_no_labels :: env where
  "env_no_labels = env_ok\<lparr>DetectLabels := (\<lambda>b n. Inr [])\<rparr>"

definition w0 :: world where
  "w0 = \<lparr>published = [], requests = []\<rparr>"

text \<open>The webhook body \<^verbatim>\<open>{"events":[{"replyToken":"r1","message":{"id":"img1"}}]}\<close> of the
  specification's scenario, the event that delivers its ProcessMessage, and the
  event that delivers the SendMessage \<^verbatim>\<open>{replyToken:"r1", labels:["cat","outdoor"]}\<close>.\<close>

definition body_r1 :: bytes where
  "body_r1 = JSONText (Object [(''events'',
       Array [Object [(''replyToken'', String ''r1''),
                      (''message'', Object [(''id'', String ''img1'')])]])])"

definition evt_process_r1 :: event where
  "evt_process_r1 = \<lparr>DataAs = Inr \<lparr>Message = \<lparr>Data =
       JSONText (Object [(''ImageID'', String ''img1''), (''ReplyToken'', String ''r1'')])\<rparr>\<rparr>\<rparr>"

definition evt_send_r1 :: event where
  "evt_send_r1 = \<lparr>DataAs = Inr \<lparr>Message = \<lparr>Data =
       JSONText (Object [(''ReplyToken'', String ''r1''),
                         (''Labels'', Array [String ''cat'', String ''outdoor''])])\<rparr>\<rparr>\<rparr>"

text \<open>A webhook body with a \<^verbatim>\<open>destination\<close> and two events, the first without any
  member the decoder knows, the second with an empty \<^verbatim>\<open>replyToken\<close> and a
  \<^verbatim>\<open>message\<close> without \<^verbatim>\<open>id\<close>.\<close>

definition objs_blank :: "(string \<times> json) list list" where
  "objs_blank = [[(''type'', String ''follow'')],
                 [(''replyToken'', String ''''), (''message'', Object [(''type'', String ''image'')])]]"

definition body_blank :: bytes where
  "body_blank = JSONText (Object ([(''destination'', String ''U1'')]
                   @ [(''events'', Array (map Object objs_blank))] @ []))"


text \<open>The event that delivers the SendMessage \<^verbatim>\<open>{replyToken:"r1", labels:[]}\<close>, and an
  environment whose HTTP transport fails.\<close>

definition evt_send_empty :: event where
  "evt_send_empty = \<lparr>DataAs = Inr \<lparr>Message = \<lparr>Data =
       JSONText (Object [(''ReplyToken'', String ''r1''), (''Labels'', Array [])])\<rparr>\<rparr>\<rparr>"

definition env_unreachable :: env where
  "env_unreachable = env_ok\<lparr>http_Do := (\<lambda>r. Inl (ServiceError ''dial tcp: i/o timeout''))\<rparr>"

section \<open>Strings that are not valid UTF-8\<close>

text \<open>
  A Go string is a byte string and need not be valid UTF-8.  The strings the
  stages hand to \<^verbatim>\<open>json.Marshal\<close> are: they come out of \<^verbatim>\<open>json.Unmarshal\<close> and of
  the clients, and \<open>json_Marshal_processMessage\<close> and \<open>json_Marshal_sendMessage\<close>
  above are \<^verbatim>\<open>json.Marshal\<close> on such messages.  On any string \<^verbatim>\<open>json.Marshal\<close> writes
  the string "coerced to valid UTF-8, replacing invalid bytes with the Unicode
  replacement rune": it walks the string with \<^verbatim>\<open>utf8.DecodeRuneInString\<close>, copies
  every well-formed encoding and writes U+FFFD (bytes EF BF BD) for a byte at which
  the decoder reports an error.

  \<open>first_byte b\<close> is the entry of the tables \<^verbatim>\<open>first\<close> and \<^verbatim>\<open>acceptRanges\<close> of package
  \<^verbatim>\<open>utf8\<close> for a first byte \<open>b\<close>: the length of the encoding it starts and the range
  the second byte must lie in, or \<open>None\<close> when no encoding starts with \<open>b\<close>.
  \<open>decodeSize s\<close> is the size \<^verbatim>\<open>utf8.DecodeRuneInString(s)\<close> returns for a well-formed
  encoding at the head of \<open>s\<close>, and \<open>None\<close> when it returns \<^verbatim>\<open>RuneError\<close> with size 1.
\<close>

definition first_byte :: "nat \<Rightarrow> (nat \<times> nat \<times> nat) option" where
  "first_byte b =
     (if b < 0x80 then Some (1, 0, 0)
      else if b < 0xC2 then None
      else if b \<le> 0xDF then Some (2, 0x80, 0xBF)
      else if b = 0xE0 then Some (3, 0xA0, 0xBF)
      else if b \<le> 0xEC then Some (3, 0x80, 0xBF)
      else if b = 0xED then Some (3, 0x80, 0x9F)
      else if b \<le> 0xEF then Some (3, 0x80, 0xBF)
      else if b = 0xF0 then Some (4, 0x90, 0xBF)
      else if b \<le> 0xF3 then Some (4, 0x80, 0xBF)
      else if b = 0xF4 then Some (4, 0x80, 0x8F)
      else None)"

definition continuation :: "char \<Rightarrow> bool" where
  "continuation c = (0x80 \<le> (of_char c :: nat) \<and> (of_char c :: nat) \<le> 0xBF)"

definition decodeSize :: "string \<Rightarrow> nat option" where
  "decodeSize s =
     (case s of
        [] \<Rightarrow> None
      | s0 # t0 \<Rightarrow>
          (case first_byte (of_char s0) of
             None \<Rightarrow> None
           | Some (sz, lo, hi) \<Rightarrow>
               if sz = 1 then Some 1
               else if length s < sz then None
               else (case t0 of
                       [] \<Rightarrow> None
                     | s1 # t1 \<Rightarrow>
                         if (of_char s1 :: nat) < lo \<or> hi < (of_char s1 :: nat) then None
                         else if sz \<le> 2 then Some 2
                         else (case t1 of
                                 [] \<Rightarrow> None
                               | s2 # t2 \<Rightarrow>
                                   if \<not> continuation s2 then None
                                   else if sz \<le> 3 then Some 3
                                   else (case t2 of
                                           [] \<Rightarrow> None
                                         | s3 # t3 \<Rightarrow>
                                             if \<not> continuation s3 then None else Some 4)))))"

text \<open>
  The loop over the string, with the number of bytes of the current encoding that
  are still to be copied: \<open>coerce_from\<close> is the string \<^verbatim>\<open>json.Marshal\<close> writes and
  \<open>valid_from\<close> is \<^verbatim>\<open>utf8.ValidString\<close>, true when the decoder reports no error.
\<close>

fun coerce_from :: "nat \<Rightarrow> string \<Rightarrow> string" where
  "coerce_from k [] = []"
| "coerce_from (Suc k) (c # cs) = c # coerce_from k cs"
| "coerce_from 0 (c # cs) =
     (case decodeSize (c # cs) of
        None \<Rightarrow> [CHR 0xEF, CHR 0xBF, CHR 0xBD] @ coerce_from 0 cs
      | Some n \<Rightarrow> c # coerce_from (n - 1) cs)"

definition coerceUTF8 :: "string \<Rightarrow> string" where
  "coerceUTF8 s = coerce_from 0 s"

fun valid_from :: "nat \<Rightarrow> string \<Rightarrow> bool" where
  "valid_from k [] = True"
| "valid_from (Suc k) (c # cs) = valid_from k cs"
| "valid_from 0 (c # cs) =
     (case decodeSize (c # cs) of
        None \<Rightarrow> False
      | Some n \<Rightarrow> valid_from (n - 1) cs)"

definition utf8_ValidString :: "string \<Rightarrow> bool" where
  "utf8_ValidString s = valid_from 0 s"

text \<open>\<^verbatim>\<open>json.Marshal\<close> on a message with any strings: the coercion, then the encoding.\<close>

definition json_Marshal_coercing_processMessage :: "processMessage \<Rightarrow> error + bytes" where
  "json_Marshal_coercing_processMessage msg =
     json_Marshal_processMessage
       \<lparr>pm_ImageID = coerceUTF8 (pm_ImageID msg), pm_ReplyToken = coerceUTF8 (pm_ReplyToken msg)\<rparr>"

definition json_Marshal_coercing_sendMessage :: "sendMessage \<Rightarrow> error + bytes" where
  "json_Marshal_coercing_sendMessage msg =
     json_Marshal_sendMessage
       \<lparr>sm_ReplyToken = coerceUTF8 (sm_ReplyToken msg),
        sm_Labels = map_option (map coerceUTF8) (sm_Labels msg)\<rparr>"

text \<open>
  The same environment with every response's status replaced by \<open>code\<close>: what the
  transport answers is otherwise unchanged, and so is what it fails with.
\<close>

definition answer_with_status :: "nat \<Rightarrow> env \<Rightarrow> env" where
  "answer_with_status code env =
     env\<lparr>http_Do := (\<lambda>req. case http_Do env req of
                               Inl err \<Rightarrow> Inl err
                             | Inr resp \<Rightarrow> Inr (resp\<lparr>StatusCode := code\<rparr>))\<rparr>"

text \<open>An environment in which no URL parses.\<close>

definition env_bad_url :: env where
  "env_bad_url = env_ok\<lparr>url_Parse := (\<lambda>u. Some (ServiceError ''parse: invalid URL''))\<rparr>"

section \<open>The receive stage\<close>

lemma receive_loop_step:
  "pubsub_Get env topic (event_payload evt) = Inr ident \<Longrightarrow>
   receive_loop env topic (evt # evts) w =
     receive_loop env topic evts (w\<lparr>published := published w @ [(topic, event_payload evt)]\<rparr>)"
  by (simp add: json_Marshal_processMessage_def event_payload_def)

lemma receive_loop_stop:
  "pubsub_Get env topic (event_payload evt) = Inl err \<Longrightarrow>
   receive_loop env topic (evt # evts) w = (Some err, w)"
  by (simp add: json_Marshal_processMessage_def event_payload_def)

lemma receive_loop_accepted:
  "\<forall>evt \<in> set evts. \<exists>ident. pubsub_Get env topic (event_payload evt) = Inr ident \<Longrightarrow>
   receive_loop env topic evts w =
     (None, w\<lparr>published := published w @ map (\<lambda>evt. (topic, event_payload evt)) evts\<rparr>)"
proof (induction evts arbitrary: w)
  case Nil
  show ?case by simp
next
  case (Cons evt evts)
  from Cons.prems obtain ident where g: "pubsub_Get env topic (event_payload evt) = Inr ident"
    by auto
  from Cons.prems have rest: "\<forall>evt \<in> set evts. \<exists>ident. pubsub_Get env topic (event_payload evt) = Inr ident"
    by simp
  show ?case
    unfolding receive_loop_step[OF g] Cons.IH[OF rest] by simp
qed

lemma receive_loop_prefix:
  "\<exists>k. k \<le> length evts \<and> snd (receive_loop env topic evts w) =
       w\<lparr>published := published w @ map (\<lambda>evt. (topic, event_payload evt)) (take k evts)\<rparr>
     \<and> (fst (receive_loop env topic evts w) = None \<longrightarrow> k = length evts)"
proof (induction evts arbitrary: w)
  case Nil
  show ?case by simp
next
  case (Cons evt evts)
  show ?case
  proof (cases "pubsub_Get env topic (event_payload evt)")
    case (Inl err)
    then have r: "receive_loop env topic (evt # evts) w = (Some err, w)"
      by (rule receive_loop_stop)
    have "0 \<le> length (evt # evts) \<and>
      snd (receive_loop env topic (evt # evts) w) =
        w\<lparr>published := published w @ map (\<lambda>evt. (topic, event_payload evt)) (take 0 (evt # evts))\<rparr> \<and>
      (fst (receive_loop env topic (evt # evts) w) = None \<longrightarrow> 0 = length (evt # evts))"
      unfolding r by simp
    then show ?thesis by (rule exI)
  next
    case (Inr ident)
    let ?w = "w\<lparr>published := published w @ [(topic, event_payload evt)]\<rparr>"
    from Inr have step: "receive_loop env topic (evt # evts) w = receive_loop env topic evts ?w"
      by (rule receive_loop_step)
    from Cons.IH[of ?w] obtain k where kk: "k \<le> length evts \<and>
      snd (receive_loop env topic evts ?w) =
         ?w\<lparr>published := published ?w @ map (\<lambda>evt. (topic, event_payload evt)) (take k evts)\<rparr> \<and>
      (fst (receive_loop env topic evts ?w) = None \<longrightarrow> k = length evts)" by (rule exE)
    note k = conjunct1[OF kk] conjunct1[OF conjunct2[OF kk]] conjunct2[OF conjunct2[OF kk]]
    have "Suc k \<le> length (evt # evts)" using k(1) by simp
    moreover have "snd (receive_loop env topic (evt # evts) w) =
       w\<lparr>published := published w @ map (\<lambda>evt. (topic, event_payload evt)) (take (Suc k) (evt # evts))\<rparr>"
      unfolding step k(2) by simp
    moreover have "fst (receive_loop env topic (evt # evts) w) = None \<longrightarrow> Suc k = length (evt # evts)"
      unfolding step using k(3) by simp
    ultimately have "Suc k \<le> length (evt # evts) \<and>
      snd (receive_loop env topic (evt # evts) w) =
        w\<lparr>published := published w @ map (\<lambda>evt. (topic, event_payload evt)) (take (Suc k) (evt # evts))\<rparr> \<and>
      (fst (receive_loop env topic (evt # evts) w) = None \<longrightarrow> Suc k = length (evt # evts))"
      by (intro conjI)
    then show ?thesis by (rule exI)
  qed
qed

lemma receive_loop_None:
  assumes "receive_loop env topic evts w = (None, w1)"
  shows "w1 = w\<lparr>published := published w @ map (\<lambda>evt. (topic, event_payload evt)) evts\<rparr>"
proof -
  from receive_loop_prefix[of evts env topic w] obtain k where kk: "k \<le> length evts \<and>
      snd (receive_loop env topic evts w) =
         w\<lparr>published := published w @ map (\<lambda>evt. (topic, event_payload evt)) (take k evts)\<rparr> \<and>
      (fst (receive_loop env topic evts w) = None \<longrightarrow> k = length evts)" by (rule exE)
  from kk assms have "k = length evts" by simp
  with kk assms show ?thesis by simp
qed

lemma receive_decoded:
  assumes "r_Body r = Inr reqBody" "json_Unmarshal_lineWebHook reqBody = Inr hook"
    "pubsub_NewClient env (os_Getenv env ''PROJECT_ID'') = None"
  shows "receive env r w =
     (case receive_loop env (os_Getenv env ''WAIT_PROCESS_TOPIC'') (elems (Events hook)) w of
        (Some err, w1) \<Rightarrow> (returnError 500 err, w1)
      | (None, w1) \<Rightarrow> (\<lparr>status = 200, body = Literal ''receive''\<rparr>, w1))"
  using assms by (simp add: receive_def httputil_DumpRequest_def)

lemma receive_client_failed:
  assumes "r_Body r = Inr reqBody" "json_Unmarshal_lineWebHook reqBody = Inr hook"
    "pubsub_NewClient env (os_Getenv env ''PROJECT_ID'') = Some err"
  shows "receive env r w = (returnError 500 err, w)"
  using assms by (simp add: receive_def httputil_DumpRequest_def)

text \<open>
  Claim C1.  For a request whose body decodes to a webhook envelope with the events
  \<open>elems (Events hook)\<close> (\<open>N\<close> of them): when the broker client is created and the
  broker acknowledges the publish of every event's message, the receive stage
  publishes exactly these \<open>N\<close> messages to the topic named by
  \<^verbatim>\<open>WAIT_PROCESS_TOPIC\<close>, in the order of the events, and answers 200 with the
  body \<^verbatim>\<open>receive\<close>; whatever the broker does, the answer is 200 only when all
  \<open>N\<close> messages have been acknowledged; and the payload of each message decodes,
  in the process stage, to the event's \<^verbatim>\<open>message.id\<close> and \<^verbatim>\<open>replyToken\<close> unchanged.
\<close>

theorem receive_publishes_one_message_per_event:
  assumes body: "r_Body r = Inr reqBody"
    and wf: "json_Unmarshal_lineWebHook reqBody = Inr hook"
  shows "(pubsub_NewClient env (os_Getenv env ''PROJECT_ID'') = None \<and>
          (\<forall>evt \<in> set (elems (Events hook)).
             \<exists>ident. pubsub_Get env (os_Getenv env ''WAIT_PROCESS_TOPIC'') (event_payload evt) = Inr ident)
          \<longrightarrow> receive env r w =
                (\<lparr>status = 200, body = Literal ''receive''\<rparr>,
                 w\<lparr>published := published w @
                      map (\<lambda>evt. (os_Getenv env ''WAIT_PROCESS_TOPIC'', event_payload evt))
                          (elems (Events hook))\<rparr>))
       \<and> (status (fst (receive env r w)) = 200
          \<longrightarrow> snd (receive env r w) =
                 w\<lparr>published := published w @
                      map (\<lambda>evt. (os_Getenv env ''WAIT_PROCESS_TOPIC'', event_payload evt))
                          (elems (Events hook))\<rparr>)
       \<and> (\<forall>evt. json_Unmarshal_processMessage (event_payload evt) =
                  Inr \<lparr>pm_ImageID = ID (LineEventMessage evt), pm_ReplyToken = ReplyToken evt\<rparr>)"
proof (intro conjI impI allI)
  assume ok: "pubsub_NewClient env (os_Getenv env ''PROJECT_ID'') = None \<and>
          (\<forall>evt \<in> set (elems (Events hook)).
             \<exists>ident. pubsub_Get env (os_Getenv env ''WAIT_PROCESS_TOPIC'') (event_payload evt) = Inr ident)"
  show "receive env r w =
                (\<lparr>status = 200, body = Literal ''receive''\<rparr>,
                 w\<lparr>published := published w @
                      map (\<lambda>evt. (os_Getenv env ''WAIT_PROCESS_TOPIC'', event_payload evt))
                          (elems (Events hook))\<rparr>)"
    unfolding receive_decoded[OF body wf conjunct1[OF ok]]
      receive_loop_accepted[OF conjunct2[OF ok]] by simp
next
  assume st: "status (fst (receive env r w)) = 200"
  show "snd (receive env r w) =
                 w\<lparr>published := published w @
                      map (\<lambda>evt. (os_Getenv env ''WAIT_PROCESS_TOPIC'', event_payload evt))
                          (elems (Events hook))\<rparr>"
  proof (cases "pubsub_NewClient env (os_Getenv env ''PROJECT_ID'')")
    case (Some err)
    from st show ?thesis
      unfolding receive_client_failed[OF body wf Some] by (simp add: returnError_def)
  next
    case None
    obtain res w1 where l: "receive_loop env (os_Getenv env ''WAIT_PROCESS_TOPIC'') (elems (Events hook)) w = (res, w1)"
      by (cases "receive_loop env (os_Getenv env ''WAIT_PROCESS_TOPIC'') (elems (Events hook)) w")
    show ?thesis
    proof (cases res)
      case (Some err)
      from st show ?thesis
        unfolding receive_decoded[OF body wf None] l Some by (simp add: returnError_def)
    next
      case None2: None
      have "w1 = w\<lparr>published := published w @
                      map (\<lambda>evt. (os_Getenv env ''WAIT_PROCESS_TOPIC'', event_payload evt))
                          (elems (Events hook))\<rparr>"
        using l unfolding None2 by (rule receive_loop_None)
      then show ?thesis
        unfolding receive_decoded[OF body wf None] l None2 by simp
    qed
  qed
next
  fix evt
  show "json_Unmarshal_processMessage (event_payload evt) =
          Inr \<lparr>pm_ImageID = ID (LineEventMessage evt), pm_ReplyToken = ReplyToken evt\<rparr>"
    by (simp add: json_Unmarshal_processMessage_def decode_processMessage_def decode_struct_def
      step_processMessage_def findField_def zero_processMessage_def saveError_def event_payload_def)
qed

theorem receive_publishes_one_message_per_event_witness:
  "r_Body \<lparr>r_Body = Inr body_r1\<rparr> = Inr body_r1 \<and>
   json_Unmarshal_lineWebHook body_r1 =
     Inr \<lparr>Events = Some [\<lparr>ReplyToken = ''r1'', LineEventMessage = \<lparr>ID = ''img1''\<rparr>\<rparr>]\<rparr> \<and>
   receive env_ok \<lparr>r_Body = Inr body_r1\<rparr> w0 =
     (\<lparr>status = 200, body = Literal ''receive''\<rparr>,
      w0\<lparr>published := [(''wait-process'',
             JSONText (Object [(''ImageID'', String ''img1''), (''ReplyToken'', String ''r1'')]))]\<rparr>) \<and>
   json_Unmarshal_processMessage
       (JSONText (Object [(''ImageID'', String ''img1''), (''ReplyToken'', String ''r1'')])) =
     Inr \<lparr>pm_ImageID = ''img1'', pm_ReplyToken = ''r1''\<rparr>"
proof -
  have b: "r_Body \<lparr>r_Body = Inr body_r1\<rparr> = Inr body_r1" by simp
  have u: "json_Unmarshal_lineWebHook body_r1 =
     Inr \<lparr>Events = Some [\<lparr>ReplyToken = ''r1'', LineEventMessage = \<lparr>ID = ''img1''\<rparr>\<rparr>]\<rparr>"
    by (simp add: body_r1_def json_Unmarshal_lineWebHook_def decode_lineWebHook_def
        decode_struct_def step_lineWebHook_def findField_def decode_slice_def elems_def
        decode_lineEvent_def step_lineEvent_def decode_lineEventMessage_def
        step_lineEventMessage_def zero_lineWebHook_def zero_lineEvent_def
        zero_lineEventMessage_def saveError_def)
  note th = receive_publishes_one_message_per_event[OF b u, of env_ok w0]
  have p: "receive env_ok \<lparr>r_Body = Inr body_r1\<rparr> w0 =
     (\<lparr>status = 200, body = Literal ''receive''\<rparr>,
      w0\<lparr>published := [(''wait-process'',
             JSONText (Object [(''ImageID'', String ''img1''), (''ReplyToken'', String ''r1'')]))]\<rparr>)"
    using conjunct1[OF th] by (simp add: env_ok_def w0_def elems_def event_payload_def)
  have d: "json_Unmarshal_processMessage
       (JSONText (Object [(''ImageID'', String ''img1''), (''ReplyToken'', String ''r1'')])) =
     Inr \<lparr>pm_ImageID = ''img1'', pm_ReplyToken = ''r1''\<rparr>"
    using spec[OF conjunct2[OF conjunct2[OF th]],
        of "\<lparr>ReplyToken = ''r1'', LineEventMessage = \<lparr>ID = ''img1''\<rparr>\<rparr>"]
    by (simp add: event_payload_def)
  from b u p d show ?thesis by (intro conjI)
qed

text \<open>
  The other half of the stage's contract: the first publish the broker does not
  acknowledge ends the batch.  The events before it have been published, the
  remaining ones are not attempted, and the answer is 500 with the broker's error.
\<close>

lemma receive_loop_first_failure:
  assumes "i < length evts"
    and "\<forall>j < i. \<exists>ident. pubsub_Get env topic (event_payload (evts ! j)) = Inr ident"
    and "pubsub_Get env topic (event_payload (evts ! i)) = Inl err"
  shows "receive_loop env topic evts w =
     (Some err, w\<lparr>published := published w @ map (\<lambda>evt. (topic, event_payload evt)) (take i evts)\<rparr>)"
  using assms
proof (induction evts arbitrary: i w)
  case Nil
  then show ?case by simp
next
  case (Cons evt evts)
  show ?case
  proof (cases i)
    case 0
    with Cons.prems(3) have "pubsub_Get env topic (event_payload evt) = Inl err" by simp
    then have "receive_loop env topic (evt # evts) w = (Some err, w)"
      by (rule receive_loop_stop)
    with 0 show ?thesis by simp
  next
    case (Suc i')
    from Cons.prems(2) Suc obtain ident where g: "pubsub_Get env topic (event_payload evt) = Inr ident"
      by fastforce
    from Cons.prems Suc have 1: "i' < length evts" by simp
    from Cons.prems(2) Suc have 2: "\<forall>j < i'. \<exists>ident. pubsub_Get env topic (event_payload (evts ! j)) = Inr ident"
      by fastforce
    from Cons.prems(3) Suc have 3: "pubsub_Get env topic (event_payload (evts ! i')) = Inl err" by simp
    show ?thesis
      unfolding receive_loop_step[OF g] Cons.IH[OF 1 2 3] Suc by simp
  qed
qed

lemma receive_aborts_at_first_failure:
  assumes "r_Body r = Inr reqBody"
    and "json_Unmarshal_lineWebHook reqBody = Inr hook"
    and "pubsub_NewClient env (os_Getenv env ''PROJECT_ID'') = None"
    and "i < length (elems (Events hook))"
    and "\<forall>j < i. \<exists>ident. pubsub_Get env (os_Getenv env ''WAIT_PROCESS_TOPIC'')
                            (event_payload (elems (Events hook) ! j)) = Inr ident"
    and "pubsub_Get env (os_Getenv env ''WAIT_PROCESS_TOPIC'')
           (event_payload (elems (Events hook) ! i)) = Inl err"
  shows "receive env r w =
     (\<lparr>status = 500, body = ErrorText err\<rparr>,
      w\<lparr>published := published w @
           map (\<lambda>evt. (os_Getenv env ''WAIT_PROCESS_TOPIC'', event_payload evt))
               (take i (elems (Events hook)))\<rparr>)"
  unfolding receive_decoded[OF assms(1-3)] receive_loop_first_failure[OF assms(4-6)]
  by (simp add: returnError_def)

text \<open>
  Claim C4.  When the body of the request is not valid JSON for the webhook envelope
  (\<^verbatim>\<open>json.Unmarshal\<close> returns an error: the bytes are not a JSON text, or a value does
  not fit the envelope), the receive stage answers 500 with the text of that error
  as body and leaves the world as it was: nothing is published.
\<close>

theorem receive_rejects_malformed_body:
  assumes "r_Body r = Inr reqBody"
    and "json_Unmarshal_lineWebHook reqBody = Inl err"
  shows "receive env r w = (\<lparr>status = 500, body = ErrorText err\<rparr>, w)"
  using assms by (simp add: receive_def httputil_DumpRequest_def returnError_def)


theorem receive_rejects_malformed_body_witness:
  "json_Unmarshal_lineWebHook (NotJSON ''{'') = Inl SyntaxError \<and>
   receive env_ok \<lparr>r_Body = Inr (NotJSON ''{'')\<rparr> w0 =
     (\<lparr>status = 500, body = ErrorText SyntaxError\<rparr>, w0) \<and>
   json_Unmarshal_lineWebHook (JSONText (Array [])) =
     Inl (UnmarshalTypeError ''array'' ''function.lineWebHook'') \<and>
   receive env_ok \<lparr>r_Body = Inr (JSONText (Array []))\<rparr> w0 =
     (\<lparr>status = 500, body = ErrorText (UnmarshalTypeError ''array'' ''function.lineWebHook'')\<rparr>, w0)"
proof -
  have b1: "r_Body \<lparr>r_Body = Inr (NotJSON ''{'')\<rparr> = Inr (NotJSON ''{'')" by simp
  have u1: "json_Unmarshal_lineWebHook (NotJSON ''{'') = Inl SyntaxError"
    by (simp add: json_Unmarshal_lineWebHook_def)
  have b2: "r_Body \<lparr>r_Body = Inr (JSONText (Array []))\<rparr> = Inr (JSONText (Array []))" by simp
  have u2: "json_Unmarshal_lineWebHook (JSONText (Array [])) =
      Inl (UnmarshalTypeError ''array'' ''function.lineWebHook'')"
    by (simp add: json_Unmarshal_lineWebHook_def decode_lineWebHook_def decode_struct_def)
  from receive_rejects_malformed_body[OF b1 u1, of env_ok w0]
       receive_rejects_malformed_body[OF b2 u2, of env_ok w0] u1 u2
  show ?thesis by simp
qed

subsection \<open>Events are not validated\<close>

lemma decode_elems_fresh:
  "fst (decode_elems dec z xs []) = map (\<lambda>x. fst (dec x z)) xs"
  by (induction xs) (simp_all add: split_def Let_def)

lemma decode_members_append:
  "decode_members step (ms @ ns) v =
     (let (v1, e1) = decode_members step ms v; (v2, e2) = decode_members step ns v1
      in (v2, saveError e1 e2))"
  by (induction ms arbitrary: v) (auto simp: split_def Let_def saveError_def split: option.splits)

lemma decode_members_lineWebHook_skip:
  "\<forall>(k, v) \<in> set ms. findField [''events''] k = None \<Longrightarrow>
   decode_members step_lineWebHook ms s = (s, None)"
  by (induction ms) (auto simp: step_lineWebHook_def saveError_def)

lemma decode_events_member:
  "step_lineWebHook ''events'' (Array xs) (zero_lineWebHook, []) =
     ((\<lparr>Events = Some (map (\<lambda>x. fst (decode_lineEvent x zero_lineEvent)) xs)\<rparr>, []),
      snd (decode_elems decode_lineEvent zero_lineEvent xs []))"
  by (cases "xs = []")
     (simp_all add: step_lineWebHook_def findField_def decode_slice_def split_def Let_def
        saveError_def zero_lineWebHook_def elems_def decode_elems_fresh
        split: option.splits)

lemma Unmarshal_events:
  assumes skip: "\<forall>(k, v) \<in> set (pre @ post). findField [''events''] k = None"
    and ok: "json_Unmarshal_lineWebHook (JSONText (Object (pre @ [(''events'', Array xs)] @ post))) = Inr hook"
  shows "elems (Events hook) = map (\<lambda>x. fst (decode_lineEvent x zero_lineEvent)) xs"
proof -
  from skip have pre: "decode_members step_lineWebHook pre (zero_lineWebHook, []) = ((zero_lineWebHook, []), None)"
    by (intro decode_members_lineWebHook_skip) auto
  from skip have post: "\<And>s. decode_members step_lineWebHook post s = (s, None)"
    by (intro decode_members_lineWebHook_skip) auto
  have "decode_members step_lineWebHook (pre @ [(''events'', Array xs)] @ post) (zero_lineWebHook, []) =
     ((\<lparr>Events = Some (map (\<lambda>x. fst (decode_lineEvent x zero_lineEvent)) xs)\<rparr>, []),
      snd (decode_elems decode_lineEvent zero_lineEvent xs []))"
    by (simp add: decode_members_append pre post decode_events_member saveError_def
          split: option.splits)
  with ok show ?thesis
    by (auto simp: json_Unmarshal_lineWebHook_def decode_lineWebHook_def decode_struct_def
        elems_def split: option.splits)
qed

lemma decode_lineEventMessage_blank:
  "id_absent_or_empty ms \<Longrightarrow> ID v = '''' \<Longrightarrow>
   ID (fst (decode_members step_lineEventMessage ms v)) = ''''"
proof (induction ms arbitrary: v)
  case Nil
  then show ?case by simp
next
  case (Cons m ms)
  obtain k x where m: "m = (k, x)" by (cases m)
  from Cons.prems have rest: "id_absent_or_empty ms"
    by (simp add: id_absent_or_empty_def)
  have "ID (fst (step_lineEventMessage k x v)) = ''''"
    using Cons.prems by (auto simp: m id_absent_or_empty_def step_lineEventMessage_def split: option.splits)
  from Cons.IH[OF rest this] show ?case
    by (simp add: m split_def Let_def)
qed

lemma decode_lineEvent_replyToken_blank:
  "replyToken_absent_or_empty ms \<Longrightarrow> ReplyToken v = '''' \<Longrightarrow>
   ReplyToken (fst (decode_members step_lineEvent ms v)) = ''''"
proof (induction ms arbitrary: v)
  case Nil
  then show ?case by simp
next
  case (Cons m ms)
  obtain k x where m: "m = (k, x)" by (cases m)
  from Cons.prems have rest: "replyToken_absent_or_empty ms"
    by (simp add: replyToken_absent_or_empty_def)
  have "ReplyToken (fst (step_lineEvent k x v)) = ''''"
    using Cons.prems
    by (auto simp: m replyToken_absent_or_empty_def step_lineEvent_def split_def Let_def
        split: option.splits)
  from Cons.IH[OF rest this] show ?case
    by (simp add: m split_def Let_def)
qed

lemma decode_lineEvent_id_blank:
  "message_id_absent_or_empty ms \<Longrightarrow> ID (LineEventMessage v) = '''' \<Longrightarrow>
   ID (LineEventMessage (fst (decode_members step_lineEvent ms v))) = ''''"
proof (induction ms arbitrary: v)
  case Nil
  then show ?case by simp
next
  case (Cons m ms)
  obtain k x where m: "m = (k, x)" by (cases m)
  from Cons.prems have rest: "message_id_absent_or_empty ms"
    by (simp add: message_id_absent_or_empty_def)
  have "ID (LineEventMessage (fst (step_lineEvent k x v))) = ''''"
  proof (cases "findField [''replyToken'', ''message''] k = Some ''message''")
    case True
    with Cons.prems obtain ms' where x: "x = Object ms'" and b: "id_absent_or_empty ms'"
      by (auto simp: m message_id_absent_or_empty_def split: json.splits)
    from decode_lineEventMessage_blank[OF b Cons.prems(2)] True show ?thesis
      by (simp add: step_lineEvent_def x decode_lineEventMessage_def decode_struct_def
          split_def Let_def)
  next
    case False
    have "findField [''replyToken'', ''message''] k = None \<or>
          findField [''replyToken'', ''message''] k = Some ''replyToken''"
      using False by (auto simp: findField_def split: if_splits)
    then show ?thesis
      using Cons.prems(2) by (auto simp: step_lineEvent_def split_def Let_def)
  qed
  from Cons.IH[OF rest this] show ?case
    by (simp add: m split_def Let_def)
qed

text \<open>
  Claim C10.  The receive stage does not validate the fields of an event.  For a body
  that parses as a webhook envelope, \<^verbatim>\<open>{..., "events": [obj, ...], ...}\<close> with no other
  member decoded into \<^verbatim>\<open>Events\<close>, and a broker that acknowledges: one message is
  published per event object, in order, carrying what the decoder read from that
  object, and the answer is 200; and for an event in which \<^verbatim>\<open>replyToken\<close>
  (respectively \<^verbatim>\<open>message.id\<close>) is absent or empty, what the decoder read, and
  so what is published, is the empty string in that field.
\<close>

theorem receive_does_not_validate_events:
  assumes body: "r_Body r = Inr (JSONText (Object (pre @ [(''events'', Array (map Object objs))] @ post)))"
    and skip: "\<forall>(k, v) \<in> set (pre @ post). findField [''events''] k = None"
    and parses: "json_Unmarshal_lineWebHook
                   (JSONText (Object (pre @ [(''events'', Array (map Object objs))] @ post))) = Inr hook"
    and client: "pubsub_NewClient env (os_Getenv env ''PROJECT_ID'') = None"
    and acks: "\<forall>data. \<exists>ident. pubsub_Get env (os_Getenv env ''WAIT_PROCESS_TOPIC'') data = Inr ident"
  shows "receive env r w =
           (\<lparr>status = 200, body = Literal ''receive''\<rparr>,
            w\<lparr>published := published w @
                 map (\<lambda>ms. (os_Getenv env ''WAIT_PROCESS_TOPIC'',
                             event_payload (fst (decode_lineEvent (Object ms) zero_lineEvent))))
                     objs\<rparr>)
       \<and> (\<forall>ms \<in> set objs.
            (replyToken_absent_or_empty ms
               \<longrightarrow> ReplyToken (fst (decode_lineEvent (Object ms) zero_lineEvent)) = '''') \<and>
            (message_id_absent_or_empty ms
               \<longrightarrow> ID (LineEventMessage (fst (decode_lineEvent (Object ms) zero_lineEvent))) = ''''))"
proof (intro conjI ballI impI)
  have evts: "elems (Events hook) =
      map (\<lambda>x. fst (decode_lineEvent x zero_lineEvent)) (map Object objs)"
    using skip parses by (rule Unmarshal_events)
  have acc: "\<forall>evt \<in> set (elems (Events hook)).
      \<exists>ident. pubsub_Get env (os_Getenv env ''WAIT_PROCESS_TOPIC'') (event_payload evt) = Inr ident"
    using acks by simp
  show "receive env r w =
           (\<lparr>status = 200, body = Literal ''receive''\<rparr>,
            w\<lparr>published := published w @
                 map (\<lambda>ms. (os_Getenv env ''WAIT_PROCESS_TOPIC'',
                             event_payload (fst (decode_lineEvent (Object ms) zero_lineEvent))))
                     objs\<rparr>)"
  proof -
    have "receive env r w =
           (\<lparr>status = 200, body = Literal ''receive''\<rparr>,
            w\<lparr>published := published w @
                 map (\<lambda>evt. (os_Getenv env ''WAIT_PROCESS_TOPIC'', event_payload evt))
                     (elems (Events hook))\<rparr>)"
      unfolding receive_decoded[OF body parses client] receive_loop_accepted[OF acc] by simp
    then show ?thesis unfolding evts by (simp add: comp_def)
  qed
next
  fix ms
  assume "replyToken_absent_or_empty ms"
  then show "ReplyToken (fst (decode_lineEvent (Object ms) zero_lineEvent)) = ''''"
    by (simp add: decode_lineEvent_def decode_struct_def decode_lineEvent_replyToken_blank
        zero_lineEvent_def)
next
  fix ms
  assume "message_id_absent_or_empty ms"
  then show "ID (LineEventMessage (fst (decode_lineEvent (Object ms) zero_lineEvent))) = ''''"
    by (simp add: decode_lineEvent_def decode_struct_def decode_lineEvent_id_blank
        zero_lineEvent_def zero_lineEventMessage_def)
qed

theorem receive_does_not_validate_events_witness:
  "json_Unmarshal_lineWebHook body_blank =
     Inr \<lparr>Events = Some [\<lparr>ReplyToken = '''', LineEventMessage = \<lparr>ID = ''''\<rparr>\<rparr>,
                          \<lparr>ReplyToken = '''', LineEventMessage = \<lparr>ID = ''''\<rparr>\<rparr>]\<rparr> \<and>
   list_all replyToken_absent_or_empty objs_blank \<and>
   list_all message_id_absent_or_empty objs_blank \<and>
   receive env_ok \<lparr>r_Body = Inr body_blank\<rparr> w0 =
     (\<lparr>status = 200, body = Literal ''receive''\<rparr>,
      w0\<lparr>published :=
           [(''wait-process'', JSONText (Object [(''ImageID'', String ''''), (''ReplyToken'', String '''')])),
            (''wait-process'', JSONText (Object [(''ImageID'', String ''''), (''ReplyToken'', String '''')]))]\<rparr>)"
proof -
  have f1: "findField [''events''] ''destination'' = None"
    by (simp add: findField_def equalFold_def)
  have f2: "findField [''replyToken'', ''message''] ''type'' = None"
    by (simp add: findField_def equalFold_def)
  have f3: "findField [''id''] ''type'' = None"
    by (simp add: findField_def equalFold_def)
  have f4: "findField [''replyToken'', ''message''] ''replyToken'' = Some ''replyToken''"
           "findField [''replyToken'', ''message''] ''message'' = Some ''message''"
           "findField [''events''] ''events'' = Some ''events''"
    by (simp_all add: findField_def)
  have b: "r_Body \<lparr>r_Body = Inr body_blank\<rparr> =
      Inr (JSONText (Object ([(''destination'', String ''U1'')]
             @ [(''events'', Array (map Object objs_blank))] @ [])))"
    by (simp add: body_blank_def)
  have s: "\<forall>(k, v) \<in> set ([(''destination'', String ''U1'')] @ []). findField [''events''] k = None"
    using f1 by simp
  have u: "json_Unmarshal_lineWebHook body_blank =
     Inr \<lparr>Events = Some [\<lparr>ReplyToken = '''', LineEventMessage = \<lparr>ID = ''''\<rparr>\<rparr>,
                          \<lparr>ReplyToken = '''', LineEventMessage = \<lparr>ID = ''''\<rparr>\<rparr>]\<rparr>"
    by (simp add: body_blank_def objs_blank_def json_Unmarshal_lineWebHook_def
        decode_lineWebHook_def decode_struct_def step_lineWebHook_def f1 f2 f3 f4
        decode_slice_def elems_def decode_lineEvent_def step_lineEvent_def
        decode_lineEventMessage_def step_lineEventMessage_def zero_lineWebHook_def
        zero_lineEvent_def zero_lineEventMessage_def saveError_def)
  have c: "pubsub_NewClient env_ok (os_Getenv env_ok ''PROJECT_ID'') = None"
    by (simp add: env_ok_def)
  have a: "\<forall>data. \<exists>ident. pubsub_Get env_ok (os_Getenv env_ok ''WAIT_PROCESS_TOPIC'') data = Inr ident"
    by (simp add: env_ok_def)
  have r1: "list_all replyToken_absent_or_empty objs_blank"
    by (simp add: objs_blank_def replyToken_absent_or_empty_def f2 f4)
  have r2: "list_all message_id_absent_or_empty objs_blank"
    by (simp add: objs_blank_def message_id_absent_or_empty_def id_absent_or_empty_def f2 f3 f4)
  note th = receive_does_not_validate_events[OF b s u[unfolded body_blank_def] c a, of w0]
  have blank: "\<forall>ms \<in> set objs_blank.
      fst (decode_lineEvent (Object ms) zero_lineEvent) =
        \<lparr>ReplyToken = '''', LineEventMessage = \<lparr>ID = ''''\<rparr>\<rparr>"
  proof
    fix ms assume m: "ms \<in> set objs_blank"
    with r1 r2 have "replyToken_absent_or_empty ms" "message_id_absent_or_empty ms"
      by (simp_all add: list_all_iff)
    with bspec[OF conjunct2[OF th] m]
    have "ReplyToken (fst (decode_lineEvent (Object ms) zero_lineEvent)) = ''''"
         "ID (LineEventMessage (fst (decode_lineEvent (Object ms) zero_lineEvent))) = ''''"
      by simp_all
    then show "fst (decode_lineEvent (Object ms) zero_lineEvent) =
        \<lparr>ReplyToken = '''', LineEventMessage = \<lparr>ID = ''''\<rparr>\<rparr>"
      by (cases "fst (decode_lineEvent (Object ms) zero_lineEvent)",
          cases "LineEventMessage (fst (decode_lineEvent (Object ms) zero_lineEvent))") simp
  qed
  have p: "receive env_ok \<lparr>r_Body = Inr body_blank\<rparr> w0 =
     (\<lparr>status = 200, body = Literal ''receive''\<rparr>,
      w0\<lparr>published :=
           [(''wait-process'', JSONText (Object [(''ImageID'', String ''''), (''ReplyToken'', String '''')])),
            (''wait-process'', JSONText (Object [(''ImageID'', String ''''), (''ReplyToken'', String '''')]))]\<rparr>)"
    using conjunct1[OF th] blank
    by (simp add: objs_blank_def env_ok_def w0_def event_payload_def)
  from u r1 r2 p show ?thesis by (intro conjI)
qed


section \<open>The process stage\<close>

subsection \<open>The image fetcher\<close>

lemma downloadImage_never_returns_bytes:
  "fst (downloadImage env tok imageID w) \<noteq> Returned (Inr b)"
  by (simp add: downloadImage_def http_NewRequest_def io_ReadAll_def Let_def
      split: option.splits sum.splits)

lemma downloadImage_published:
  "published (snd (downloadImage env tok imageID w)) = published w"
  by (simp add: downloadImage_def http_NewRequest_def io_ReadAll_def Let_def
      split: option.splits sum.splits)

lemma downloadImage_cases:
  assumes "downloadImage env tok imageID w = (res, w1)"
  shows "res \<noteq> Returned (Inr b)" and "published w1 = published w"
  using assms downloadImage_never_returns_bytes[of env tok imageID w b]
    downloadImage_published[of env tok imageID w] by auto

text \<open>
  Claim C5, at the input where it fails.  The image fetcher is called with the
  credential \<^verbatim>\<open>tok\<close> and the image identifier \<^verbatim>\<open>img1\<close>; the content endpoint answers
  200 with the bytes of the image.  The request is the one the claim describes
  (a GET of the content URL of \<^verbatim>\<open>img1\<close> with \<^verbatim>\<open>Authorization: Bearer tok\<close>), but the
  fetcher then reads \<^verbatim>\<open>req.Body\<close>, the nil body of its own request, instead of
  \<^verbatim>\<open>resp.Body\<close>: the call panics and the bytes of the response are not returned.
\<close>

theorem downloadImage_reads_request_body:
  "http_Do env_ok
      \<lparr>Method = ''GET'', URL = ''https://api-data.line.me/v2/bot/message/img1/content'',
       Header = [(''Authorization'', ''Bearer tok'')], Body = None\<rparr> =
     Inr \<lparr>StatusCode = 200, resp_Body = NotJSON ''image-bytes''\<rparr> \<and>
   downloadImage env_ok ''tok'' ''img1'' w0 =
     (Panicked NilDereference,
      w0\<lparr>requests :=
           [\<lparr>Method = ''GET'', URL = ''https://api-data.line.me/v2/bot/message/img1/content'',
             Header = [(''Authorization'', ''Bearer tok'')], Body = None\<rparr>]\<rparr>)"
  by (simp add: downloadImage_def http_NewRequest_def Header_Add_def io_ReadAll_def Let_def
      env_ok_def w0_def)

subsection \<open>The classifier\<close>

lemma analyze_loop:
  "foldl (\<lambda>results label. append_slice results (Description label)) (Some acc) labels =
     Some (acc @ map Description labels)"
  by (induction labels arbitrary: acc) (simp_all add: append_slice_def elems_def)

text \<open>
  Claim C9.  Whenever \<^verbatim>\<open>analyzeImage\<close> succeeds, the label list it returns, which is
  what the process stage puts into the \<^verbatim>\<open>Labels\<close> field of its SendMessage, is not
  nil: it is the slice of the descriptions of what the classifier found, asked for
  at most 10 labels, in the classifier's order, and it is the empty slice when the
  classifier found nothing.  The SendMessage built from it is serialized with an
  array, never with \<^verbatim>\<open>null\<close>, in \<^verbatim>\<open>Labels\<close>.
\<close>

theorem analyzeImage_labels_never_nil:
  "analyzeImage env imageBytes = Inr labels \<Longrightarrow>
     labels \<noteq> None \<and>
     (\<exists>found. DetectLabels env imageBytes 10 = Inr found \<and>
              labels = Some (map Description found) \<and>
              json_Marshal_sendMessage \<lparr>sm_ReplyToken = replyToken, sm_Labels = labels\<rparr> =
                Inr (JSONText (Object [(''ReplyToken'', String replyToken),
                                       (''Labels'', Array (map String (map Description found)))])))"
  by (auto simp: analyzeImage_def vision_NewImageFromReader_def analyze_loop
      json_Marshal_sendMessage_def encode_strings_def
      split: option.splits sum.splits)

theorem analyzeImage_labels_never_nil_witness:
  "analyzeImage env_no_labels (NotJSON ''image-bytes'') = Inr (Some []) \<and>
   DetectLabels env_no_labels (NotJSON ''image-bytes'') 10 = Inr [] \<and>
   json_Marshal_sendMessage \<lparr>sm_ReplyToken = ''r1'', sm_Labels = Some []\<rparr> =
     Inr (JSONText (Object [(''ReplyToken'', String ''r1''), (''Labels'', Array [])]))"
proof -
  have a: "analyzeImage env_no_labels (NotJSON ''image-bytes'') = Inr (Some [])"
    by (simp add: analyzeImage_def vision_NewImageFromReader_def env_no_labels_def env_ok_def)
  from analyzeImage_labels_never_nil[OF a, of "''r1''"] a show ?thesis
    by (auto simp: env_no_labels_def env_ok_def)
qed

subsection \<open>The stage\<close>

lemma process_never_publishes:
  "fst (process env evt w) \<noteq> Returned None \<and> published (snd (process env evt w)) = published w"
  by (auto simp: process_def Let_def dest: downloadImage_cases
      split: prod.splits result.splits sum.splits option.splits)

text \<open>
  Claim C2, at the input where it fails.  The process stage is invoked with the
  ProcessMessage \<^verbatim>\<open>{imageId:"img1", replyToken:"r1"}\<close>; the payload decodes, the
  secret store returns the token, the content endpoint answers 200 with the image
  and the classifier would return \<^verbatim>\<open>["cat","outdoor"]\<close>.  The stage panics in the
  image fetcher after the GET and publishes nothing to the to-send topic.
\<close>

theorem process_panics_after_download:
  "process env_ok evt_process_r1 w0 =
     (Panicked NilDereference,
      \<lparr>published = [],
       requests =
         [\<lparr>Method = ''GET'', URL = ''https://api-data.line.me/v2/bot/message/img1/content'',
           Header = [(''Authorization'', ''Bearer tok'')], Body = None\<rparr>]\<rparr>)"
  by (simp add: process_def evt_process_r1_def env_ok_def w0_def getSecret_def
      json_Unmarshal_processMessage_def decode_processMessage_def decode_struct_def
      step_processMessage_def findField_def zero_processMessage_def saveError_def
      downloadImage_def http_NewRequest_def Header_Add_def io_ReadAll_def Let_def)

text \<open>The same invocation in the revision of \<^verbatim>\<open>src/function/function.go\<close>: the message
  published carries the constant \<^verbatim>\<open>dummy\<close>, not the reply token \<^verbatim>\<open>r1\<close> of the input.\<close>

lemma process_function_go_publishes_dummy:
  "process_function_go env_ok evt_process_r1 w0 =
     (None, \<lparr>published = [(''wait-send'', JSONText (Object [(''ReplyToken'', String ''dummy'')]))],
             requests = []\<rparr>)"
  by (simp add: process_function_go_def evt_process_r1_def env_ok_def w0_def
      json_Unmarshal_processMessage_def decode_processMessage_def decode_struct_def
      step_processMessage_def findField_def zero_processMessage_def saveError_def
      json_Marshal_sendMessage_function_go_def Let_def)

text \<open>The stage keeps no state of its own: what it returns and what it adds to the
  world do not depend on the world it starts in.\<close>

lemma downloadImage_frame:
  "\<exists>res rs. \<forall>w. downloadImage env tok imageID w = (res, w\<lparr>requests := requests w @ rs\<rparr>)"
proof (cases "url_Parse env (''https://api-data.line.me/v2/bot/message/'' @ imageID @ ''/content'')")
  case (Some err)
  then have "\<forall>w. downloadImage env tok imageID w =
      (Returned (Inl (Wrapped ''http.NewRequest failed; '' err)), w\<lparr>requests := requests w @ []\<rparr>)"
    by (simp add: downloadImage_def http_NewRequest_def)
  then show ?thesis by blast
next
  case None
  let ?req = "\<lparr>Method = ''GET'',
                URL = ''https://api-data.line.me/v2/bot/message/'' @ imageID @ ''/content'',
                Header = [(''Authorization'', ''Bearer '' @ tok)], Body = None\<rparr>"
  from None have "\<forall>w. downloadImage env tok imageID w =
      (case http_Do env ?req of
         Inl err \<Rightarrow> Returned (Inl (Wrapped ''http.DefaultClient.Get failed; '' err))
       | Inr resp \<Rightarrow> Panicked NilDereference,
       w\<lparr>requests := requests w @ [?req]\<rparr>)"
    by (simp add: downloadImage_def http_NewRequest_def Header_Add_def io_ReadAll_def Let_def
        split: sum.splits)
  then show ?thesis by blast
qed

lemma frame_stop:
  assumes "\<forall>w. f w = (res, w)"
  shows "\<exists>res ps rs. \<forall>w :: world. f w =
     (res, w\<lparr>published := published w @ ps, requests := requests w @ rs\<rparr>)"
proof -
  from assms have "\<forall>w. f w =
      (res, w\<lparr>published := published w @ [], requests := requests w @ []\<rparr>)" by simp
  then show ?thesis by blast
qed

lemma process_frame:
  "\<exists>res ps rs. \<forall>w. process env evt w =
     (res, w\<lparr>published := published w @ ps, requests := requests w @ rs\<rparr>)"
proof -
  show ?thesis
  proof (cases "DataAs evt")
    case (Inl err)
    then have "\<forall>w. process env evt w =
        (Returned (Some (Wrapped ''event.Event.DataAs failed; '' err)), w)"
      by (simp add: process_def)
    then show ?thesis by (rule frame_stop)
  next
    case subMsg: (Inr subMsg)
    show ?thesis
    proof (cases "json_Unmarshal_processMessage (Data (Message subMsg))")
      case (Inl err)
      with subMsg have "\<forall>w. process env evt w =
          (Returned (Some (Wrapped ''json.Unmarshal failed; '' err)), w)"
        by (simp add: process_def)
      then show ?thesis by (rule frame_stop)
    next
      case procMsg: (Inr procMsg)
      show ?thesis
      proof (cases "getSecret env (os_Getenv env ''PROJECT_ID'') ''channel-access-token''")
        case (Inl err)
        with subMsg procMsg have "\<forall>w. process env evt w = (Returned (Some err), w)"
          by (simp add: process_def)
        then show ?thesis by (rule frame_stop)
      next
        case tok: (Inr tok)
        from downloadImage_frame[of env tok "pm_ImageID procMsg"]
        obtain res rs where d: "\<forall>w. downloadImage env tok (pm_ImageID procMsg) w =
            (res, w\<lparr>requests := requests w @ rs\<rparr>)" by blast
        have nb: "\<And>img. res \<noteq> Returned (Inr img)"
          using downloadImage_never_returns_bytes[of env tok "pm_ImageID procMsg"] d
          by (metis fst_conv)
        have "\<forall>w. process env evt w =
            ((case res of Panicked p \<Rightarrow> Panicked p
               | Returned r \<Rightarrow> Returned (case r of Inl err \<Rightarrow> Some err | Inr img \<Rightarrow> None)),
             w\<lparr>published := published w @ [], requests := requests w @ rs\<rparr>)"
          using subMsg procMsg tok d nb
          by (auto simp: process_def split: result.splits sum.splits)
        then show ?thesis by blast
      qed
    qed
  qed
qed

text \<open>
  Claim C8, at the input where it fails.  The process stage is invoked twice with the
  ProcessMessage \<^verbatim>\<open>{imageId:"img1", replyToken:"r1"}\<close>, the second time in the world
  the first invocation left, and every collaborator answers both times as it
  would for a successful run.  Both invocations issue the same GET and panic in
  the image fetcher: no SendMessage is published, where the claim has two with
  the same reply token and labels.
\<close>

theorem process_redelivery_publishes_nothing:
  "process env_ok evt_process_r1 w0 =
     (Panicked NilDereference,
      \<lparr>published = [],
       requests =
         [\<lparr>Method = ''GET'', URL = ''https://api-data.line.me/v2/bot/message/img1/content'',
           Header = [(''Authorization'', ''Bearer tok'')], Body = None\<rparr>]\<rparr>) \<and>
   process env_ok evt_process_r1
      \<lparr>published = [],
       requests =
         [\<lparr>Method = ''GET'', URL = ''https://api-data.line.me/v2/bot/message/img1/content'',
           Header = [(''Authorization'', ''Bearer tok'')], Body = None\<rparr>]\<rparr> =
     (Panicked NilDereference,
      \<lparr>published = [],
       requests =
         [\<lparr>Method = ''GET'', URL = ''https://api-data.line.me/v2/bot/message/img1/content'',
           Header = [(''Authorization'', ''Bearer tok'')], Body = None\<rparr>,
          \<lparr>Method = ''GET'', URL = ''https://api-data.line.me/v2/bot/message/img1/content'',
           Header = [(''Authorization'', ''Bearer tok'')], Body = None\<rparr>]\<rparr>)"
  by (simp add: process_def evt_process_r1_def env_ok_def w0_def getSecret_def
      json_Unmarshal_processMessage_def decode_processMessage_def decode_struct_def
      step_processMessage_def findField_def zero_processMessage_def saveError_def
      downloadImage_def http_NewRequest_def Header_Add_def io_ReadAll_def Let_def)

section \<open>Serialization of the messages\<close>

lemma decode_elems_strings:
  "decode_elems decode_string z (map String xs) cells = (xs, None)"
  by (induction xs arbitrary: cells) (auto simp: saveError_def)

lemma encoded_message_decodes:
  "json_Unmarshal_processMessage
      (JSONText (Object [(''ImageID'', String (pm_ImageID pm)),
                         (''ReplyToken'', String (pm_ReplyToken pm))])) = Inr pm"
  "json_Unmarshal_sendMessage
      (JSONText (Object [(''ReplyToken'', String (sm_ReplyToken sm)),
                         (''Labels'', encode_strings (sm_Labels sm))])) = Inr sm"
proof -
  show "json_Unmarshal_processMessage
      (JSONText (Object [(''ImageID'', String (pm_ImageID pm)),
                         (''ReplyToken'', String (pm_ReplyToken pm))])) = Inr pm"
    by (simp add: json_Unmarshal_processMessage_def decode_processMessage_def decode_struct_def
      step_processMessage_def findField_def zero_processMessage_def saveError_def)
  show "json_Unmarshal_sendMessage
      (JSONText (Object [(''ReplyToken'', String (sm_ReplyToken sm)),
                         (''Labels'', encode_strings (sm_Labels sm))])) = Inr sm"
    by (cases "sm_Labels sm")
       (simp_all add: json_Unmarshal_sendMessage_def decode_sendMessage_def decode_struct_def
        step_sendMessage_def findField_def zero_sendMessage_def saveError_def encode_strings_def
        decode_slice_def decode_elems_strings elems_def)
qed

lemma valid_coerce: "valid_from k s \<Longrightarrow> coerce_from k s = s"
  by (induction k s rule: coerce_from.induct) (auto split: option.splits)

lemma valid_coerceUTF8: "utf8_ValidString s \<Longrightarrow> coerceUTF8 s = s"
  by (simp add: utf8_ValidString_def coerceUTF8_def valid_coerce)

lemma valid_coerce_labels:
  "list_all utf8_ValidString (elems labels) \<Longrightarrow> map_option (map coerceUTF8) labels = labels"
  by (cases labels) (simp_all add: elems_def list_all_iff map_idI valid_coerceUTF8)

text \<open>
  Claim C7, as the code has it.  For a ProcessMessage and a SendMessage whose strings
  (\<^verbatim>\<open>ImageID\<close>, \<^verbatim>\<open>ReplyToken\<close> and every label) are valid UTF-8, \<^verbatim>\<open>json.Marshal\<close>
  succeeds and \<^verbatim>\<open>json.Unmarshal\<close> of its output returns a value equal to the one
  serialized (a nil label list comes back nil, an empty one empty).
\<close>

theorem valid_messages_survive_serialization:
  assumes "utf8_ValidString (pm_ImageID pm)" and "utf8_ValidString (pm_ReplyToken pm)"
    and "utf8_ValidString (sm_ReplyToken sm)"
    and "list_all utf8_ValidString (elems (sm_Labels sm))"
  shows "(\<exists>data. json_Marshal_coercing_processMessage pm = Inr data \<and>
                  json_Unmarshal_processMessage data = Inr pm) \<and>
         (\<exists>data. json_Marshal_coercing_sendMessage sm = Inr data \<and>
                  json_Unmarshal_sendMessage data = Inr sm)"
proof (intro conjI exI)
  show "json_Marshal_coercing_processMessage pm =
      Inr (JSONText (Object [(''ImageID'', String (pm_ImageID pm)),
                             (''ReplyToken'', String (pm_ReplyToken pm))]))"
    using assms(1,2)
    by (simp add: json_Marshal_coercing_processMessage_def json_Marshal_processMessage_def
        valid_coerceUTF8)
  show "json_Unmarshal_processMessage
      (JSONText (Object [(''ImageID'', String (pm_ImageID pm)),
                         (''ReplyToken'', String (pm_ReplyToken pm))])) = Inr pm"
    by (rule encoded_message_decodes)
  show "json_Marshal_coercing_sendMessage sm =
      Inr (JSONText (Object [(''ReplyToken'', String (sm_ReplyToken sm)),
                             (''Labels'', encode_strings (sm_Labels sm))]))"
    using assms(3) valid_coerce_labels[OF assms(4)]
    by (simp add: json_Marshal_coercing_sendMessage_def json_Marshal_sendMessage_def
        valid_coerceUTF8)
  show "json_Unmarshal_sendMessage
      (JSONText (Object [(''ReplyToken'', String (sm_ReplyToken sm)),
                         (''Labels'', encode_strings (sm_Labels sm))])) = Inr sm"
    by (rule encoded_message_decodes)
qed

theorem valid_messages_survive_serialization_witness:
  "utf8_ValidString ''img1'' \<and> utf8_ValidString ''r1'' \<and>
   list_all utf8_ValidString [''cat'', ''outdoor''] \<and>
   json_Marshal_coercing_processMessage \<lparr>pm_ImageID = ''img1'', pm_ReplyToken = ''r1''\<rparr> =
     Inr (JSONText (Object [(''ImageID'', String ''img1''), (''ReplyToken'', String ''r1'')])) \<and>
   json_Unmarshal_processMessage
       (JSONText (Object [(''ImageID'', String ''img1''), (''ReplyToken'', String ''r1'')])) =
     Inr \<lparr>pm_ImageID = ''img1'', pm_ReplyToken = ''r1''\<rparr> \<and>
   json_Marshal_coercing_sendMessage \<lparr>sm_ReplyToken = ''r1'', sm_Labels = Some [''cat'', ''outdoor'']\<rparr> =
     Inr (JSONText (Object [(''ReplyToken'', String ''r1''),
                            (''Labels'', Array [String ''cat'', String ''outdoor''])])) \<and>
   json_Unmarshal_sendMessage
       (JSONText (Object [(''ReplyToken'', String ''r1''),
                          (''Labels'', Array [String ''cat'', String ''outdoor''])])) =
     Inr \<lparr>sm_ReplyToken = ''r1'', sm_Labels = Some [''cat'', ''outdoor'']\<rparr>"
proof -
  have v1: "utf8_ValidString ''img1''" and v2: "utf8_ValidString ''r1''"
    and v3: "list_all utf8_ValidString [''cat'', ''outdoor'']"
    by (simp_all add: utf8_ValidString_def decodeSize_def first_byte_def)
  have a1: "utf8_ValidString (pm_ImageID \<lparr>pm_ImageID = ''img1'', pm_ReplyToken = ''r1''\<rparr>)"
    and a2: "utf8_ValidString (pm_ReplyToken \<lparr>pm_ImageID = ''img1'', pm_ReplyToken = ''r1''\<rparr>)"
    and a3: "utf8_ValidString (sm_ReplyToken \<lparr>sm_ReplyToken = ''r1'', sm_Labels = Some [''cat'', ''outdoor'']\<rparr>)"
    and a4: "list_all utf8_ValidString
               (elems (sm_Labels \<lparr>sm_ReplyToken = ''r1'', sm_Labels = Some [''cat'', ''outdoor'']\<rparr>))"
    using v1 v2 v3 by (simp_all add: elems_def)
  note th = valid_messages_survive_serialization[OF a1 a2 a3 a4]
  from conjunct1[OF th] obtain d1 where
    m1: "json_Marshal_coercing_processMessage \<lparr>pm_ImageID = ''img1'', pm_ReplyToken = ''r1''\<rparr> = Inr d1"
    and u1: "json_Unmarshal_processMessage d1 = Inr \<lparr>pm_ImageID = ''img1'', pm_ReplyToken = ''r1''\<rparr>"
    by blast
  from conjunct2[OF th] obtain d2 where
    m2: "json_Marshal_coercing_sendMessage \<lparr>sm_ReplyToken = ''r1'', sm_Labels = Some [''cat'', ''outdoor'']\<rparr> = Inr d2"
    and u2: "json_Unmarshal_sendMessage d2 = Inr \<lparr>sm_ReplyToken = ''r1'', sm_Labels = Some [''cat'', ''outdoor'']\<rparr>"
    by blast
  have e1: "json_Marshal_coercing_processMessage \<lparr>pm_ImageID = ''img1'', pm_ReplyToken = ''r1''\<rparr> =
     Inr (JSONText (Object [(''ImageID'', String ''img1''), (''ReplyToken'', String ''r1'')]))"
    using v1 v2
    by (simp add: json_Marshal_coercing_processMessage_def json_Marshal_processMessage_def
        valid_coerceUTF8)
  have e2: "json_Marshal_coercing_sendMessage \<lparr>sm_ReplyToken = ''r1'', sm_Labels = Some [''cat'', ''outdoor'']\<rparr> =
     Inr (JSONText (Object [(''ReplyToken'', String ''r1''),
                            (''Labels'', Array [String ''cat'', String ''outdoor''])]))"
    using v2 v3
    by (simp add: json_Marshal_coercing_sendMessage_def json_Marshal_sendMessage_def
        encode_strings_def valid_coerceUTF8)
  from m1 e1 have "d1 = JSONText (Object [(''ImageID'', String ''img1''), (''ReplyToken'', String ''r1'')])"
    by simp
  with u1 have r1: "json_Unmarshal_processMessage
       (JSONText (Object [(''ImageID'', String ''img1''), (''ReplyToken'', String ''r1'')])) =
     Inr \<lparr>pm_ImageID = ''img1'', pm_ReplyToken = ''r1''\<rparr>" by simp
  from m2 e2 have "d2 = JSONText (Object [(''ReplyToken'', String ''r1''),
                            (''Labels'', Array [String ''cat'', String ''outdoor''])])"
    by simp
  with u2 have r2: "json_Unmarshal_sendMessage
       (JSONText (Object [(''ReplyToken'', String ''r1''),
                          (''Labels'', Array [String ''cat'', String ''outdoor''])])) =
     Inr \<lparr>sm_ReplyToken = ''r1'', sm_Labels = Some [''cat'', ''outdoor'']\<rparr>" by simp
  from v1 v2 v3 e1 r1 e2 r2 show ?thesis by (intro conjI)
qed

text \<open>
  Claim C7 as stated fails: the ProcessMessage whose \<^verbatim>\<open>ImageID\<close> is the single byte FF,
  which is not valid UTF-8, is serialized with U+FFFD in its place, and decoding
  the serialization yields the three bytes EF BF BD, not the byte serialized.
\<close>

theorem invalid_utf8_roundtrip_counterexample:
  "json_Marshal_coercing_processMessage \<lparr>pm_ImageID = [CHR 0xFF], pm_ReplyToken = ''r1''\<rparr> =
     Inr (JSONText (Object [(''ImageID'', String [CHR 0xEF, CHR 0xBF, CHR 0xBD]),
                            (''ReplyToken'', String ''r1'')])) \<and>
   json_Unmarshal_processMessage
       (JSONText (Object [(''ImageID'', String [CHR 0xEF, CHR 0xBF, CHR 0xBD]),
                          (''ReplyToken'', String ''r1'')])) =
     Inr \<lparr>pm_ImageID = [CHR 0xEF, CHR 0xBF, CHR 0xBD], pm_ReplyToken = ''r1''\<rparr> \<and>
   \<lparr>pm_ImageID = [CHR 0xEF, CHR 0xBF, CHR 0xBD], pm_ReplyToken = ''r1''\<rparr> \<noteq>
     \<lparr>pm_ImageID = [CHR 0xFF], pm_ReplyToken = ''r1''\<rparr>"
  by (simp add: json_Marshal_coercing_processMessage_def json_Marshal_processMessage_def
      coerceUTF8_def decodeSize_def first_byte_def
      json_Unmarshal_processMessage_def decode_processMessage_def decode_struct_def
      step_processMessage_def findField_def zero_processMessage_def saveError_def)

section \<open>The send stage\<close>

lemma strings_Join_cases:
  "strings_Join ls sep = (case ls of [] \<Rightarrow> [] | l # ls' \<Rightarrow> l @ concat (map (\<lambda>x. sep @ x) ls'))"
  by (induction ls sep rule: strings_Join.induct) simp_all

lemma strings_Join_newline: "strings_Join ls newline = newline_joined ls"
  by (cases ls) (simp_all add: strings_Join_cases)

lemma sendReply_request:
  assumes "url_Parse env ''https://api.line.me/v2/bot/message/reply'' = None"
  shows "sendReply env tok replyToken txt w =
     (case http_Do env
             \<lparr>Method = ''POST'', URL = ''https://api.line.me/v2/bot/message/reply'',
              Header = [(''Authorization'', ''Bearer '' @ tok),
                        (''Content-Type'', ''application/json'')],
              Body = Some (JSONText (Object
                [(''replyToken'', String replyToken),
                 (''messages'', Array [Object [(''type'', String ''text''),
                                               (''text'', String txt)]])]))\<rparr> of
        Inl err \<Rightarrow> Some (Wrapped ''http.DefaultClient.Get failed; '' err)
      | Inr resp \<Rightarrow> None,
      w\<lparr>requests := requests w @
           [\<lparr>Method = ''POST'', URL = ''https://api.line.me/v2/bot/message/reply'',
             Header = [(''Authorization'', ''Bearer '' @ tok),
                       (''Content-Type'', ''application/json'')],
             Body = Some (JSONText (Object
               [(''replyToken'', String replyToken),
                (''messages'', Array [Object [(''type'', String ''text''),
                                              (''text'', String txt)]])]))\<rparr>]\<rparr>)"
  using assms
  by (simp add: sendReply_def json_Marshal_replyFormat_def encode_replyFormatMessage_def
      http_NewRequest_def Header_Add_def Let_def split: sum.splits)

text \<open>
  Claim C3.  For a SendMessage the send stage has decoded, once the credential is
  resolved (and the constant reply URL parses), the stage hands the transport
  exactly one request, a POST to the reply endpoint whose message text is the
  labels joined with a single newline between consecutive entries; when there are
  no labels the text is the empty string, and the request is made all the same.
\<close>

theorem send_reply_text:
  assumes "DataAs evt = Inr subMsg"
    and "json_Unmarshal_sendMessage (Data (Message subMsg)) = Inr sendMsg"
    and "getSecret env (os_Getenv env ''PROJECT_ID'') ''channel-access-token'' = Inr tok"
    and "url_Parse env ''https://api.line.me/v2/bot/message/reply'' = None"
  shows "requests (snd (send env evt w)) = requests w @
           [\<lparr>Method = ''POST'', URL = ''https://api.line.me/v2/bot/message/reply'',
             Header = [(''Authorization'', ''Bearer '' @ tok),
                       (''Content-Type'', ''application/json'')],
             Body = Some (JSONText (Object
               [(''replyToken'', String (sm_ReplyToken sendMsg)),
                (''messages'', Array [Object
                   [(''type'', String ''text''),
                    (''text'', String (newline_joined (elems (sm_Labels sendMsg))))]])]))\<rparr>]
       \<and> (elems (sm_Labels sendMsg) = [] \<longrightarrow> newline_joined (elems (sm_Labels sendMsg)) = '''')"
proof -
  have "send env evt w =
      sendReply env tok (sm_ReplyToken sendMsg) (newline_joined (elems (sm_Labels sendMsg))) w"
    using assms(1-3)
    by (simp add: send_def Let_def strings_Join_newline[unfolded newline_def])
  then show ?thesis
    unfolding sendReply_request[OF assms(4)] by simp
qed

theorem send_reply_text_witness:
  "requests (snd (send env_ok evt_send_r1 w0)) =
     [\<lparr>Method = ''POST'', URL = ''https://api.line.me/v2/bot/message/reply'',
       Header = [(''Authorization'', ''Bearer tok''), (''Content-Type'', ''application/json'')],
       Body = Some (JSONText (Object
         [(''replyToken'', String ''r1''),
          (''messages'', Array [Object [(''type'', String ''text''),
                                        (''text'', String (''cat'' @ [CHR 0x0A] @ ''outdoor''))]])]))\<rparr>] \<and>
   requests (snd (send env_ok evt_send_empty w0)) =
     [\<lparr>Method = ''POST'', URL = ''https://api.line.me/v2/bot/message/reply'',
       Header = [(''Authorization'', ''Bearer tok''), (''Content-Type'', ''application/json'')],
       Body = Some (JSONText (Object
         [(''replyToken'', String ''r1''),
          (''messages'', Array [Object [(''type'', String ''text''), (''text'', String '''')]])]))\<rparr>]"
proof -
  have d1: "DataAs evt_send_r1 = Inr \<lparr>Message = \<lparr>Data =
       JSONText (Object [(''ReplyToken'', String ''r1''),
                         (''Labels'', Array [String ''cat'', String ''outdoor''])])\<rparr>\<rparr>"
    by (simp add: evt_send_r1_def)
  have d2: "DataAs evt_send_empty = Inr \<lparr>Message = \<lparr>Data =
       JSONText (Object [(''ReplyToken'', String ''r1''), (''Labels'', Array [])])\<rparr>\<rparr>"
    by (simp add: evt_send_empty_def)
  have u1: "json_Unmarshal_sendMessage (Data (Message \<lparr>Message = \<lparr>Data =
       JSONText (Object [(''ReplyToken'', String ''r1''),
                         (''Labels'', Array [String ''cat'', String ''outdoor''])])\<rparr>\<rparr>)) =
     Inr \<lparr>sm_ReplyToken = ''r1'', sm_Labels = Some [''cat'', ''outdoor'']\<rparr>"
    by (simp add: json_Unmarshal_sendMessage_def decode_sendMessage_def decode_struct_def
        step_sendMessage_def findField_def zero_sendMessage_def saveError_def
        decode_slice_def elems_def)
  have u2: "json_Unmarshal_sendMessage (Data (Message \<lparr>Message = \<lparr>Data =
       JSONText (Object [(''ReplyToken'', String ''r1''), (''Labels'', Array [])])\<rparr>\<rparr>)) =
     Inr \<lparr>sm_ReplyToken = ''r1'', sm_Labels = Some []\<rparr>"
    by (simp add: json_Unmarshal_sendMessage_def decode_sendMessage_def decode_struct_def
        step_sendMessage_def findField_def zero_sendMessage_def saveError_def
        decode_slice_def elems_def)
  have s: "getSecret env_ok (os_Getenv env_ok ''PROJECT_ID'') ''channel-access-token'' = Inr ''tok''"
    by (simp add: getSecret_def env_ok_def)
  have p: "url_Parse env_ok ''https://api.line.me/v2/bot/message/reply'' = None"
    by (simp add: env_ok_def)
  from send_reply_text[OF d1 u1 s p, of w0] send_reply_text[OF d2 u2 s p, of w0]
  show ?thesis by (simp add: w0_def elems_def newline_def)
qed

lemma downloadImage_request:
  "downloadImage env tok imageID w =
     (case url_Parse env (''https://api-data.line.me/v2/bot/message/'' @ imageID @ ''/content'') of
        Some err \<Rightarrow> (Returned (Inl (Wrapped ''http.NewRequest failed; '' err)), w)
      | None \<Rightarrow>
          (case http_Do env
                  \<lparr>Method = ''GET'',
                   URL = ''https://api-data.line.me/v2/bot/message/'' @ imageID @ ''/content'',
                   Header = [(''Authorization'', ''Bearer '' @ tok)], Body = None\<rparr> of
             Inl err \<Rightarrow> Returned (Inl (Wrapped ''http.DefaultClient.Get failed; '' err))
           | Inr resp \<Rightarrow> Panicked NilDereference,
           w\<lparr>requests := requests w @
                [\<lparr>Method = ''GET'',
                  URL = ''https://api-data.line.me/v2/bot/message/'' @ imageID @ ''/content'',
                  Header = [(''Authorization'', ''Bearer '' @ tok)], Body = None\<rparr>]\<rparr>))"
  by (simp add: downloadImage_def http_NewRequest_def Header_Add_def io_ReadAll_def Let_def
      split: option.splits sum.splits)

lemma sendReply_cases:
  "sendReply env tok replyToken txt w =
     (case url_Parse env ''https://api.line.me/v2/bot/message/reply'' of
        Some err \<Rightarrow> (Some (Wrapped ''http.NewRequest failed; '' err), w)
      | None \<Rightarrow>
          (case http_Do env
                  \<lparr>Method = ''POST'', URL = ''https://api.line.me/v2/bot/message/reply'',
                   Header = [(''Authorization'', ''Bearer '' @ tok),
                             (''Content-Type'', ''application/json'')],
                   Body = Some (JSONText (Object
                     [(''replyToken'', String replyToken),
                      (''messages'', Array [Object [(''type'', String ''text''),
                                                    (''text'', String txt)]])]))\<rparr> of
             Inl err \<Rightarrow> Some (Wrapped ''http.DefaultClient.Get failed; '' err)
           | Inr resp \<Rightarrow> None,
           w\<lparr>requests := requests w @
                [\<lparr>Method = ''POST'', URL = ''https://api.line.me/v2/bot/message/reply'',
                  Header = [(''Authorization'', ''Bearer '' @ tok),
                            (''Content-Type'', ''application/json'')],
                  Body = Some (JSONText (Object
                    [(''replyToken'', String replyToken),
                     (''messages'', Array [Object [(''type'', String ''text''),
                                                   (''text'', String txt)]])]))\<rparr>]\<rparr>))"
  by (simp add: sendReply_def json_Marshal_replyFormat_def encode_replyFormatMessage_def
      http_NewRequest_def Header_Add_def Let_def split: option.splits sum.splits)

text \<open>
  Claim C6, as the code has it.  Neither outbound call looks at the status of the
  response: with every response's status replaced by any other code, the reply
  sender and the image fetcher return what they returned before and leave the
  world they left before.  The reply sender returns an error exactly when its
  request cannot be built (the URL does not parse) or the transport fails
  (\<^verbatim>\<open>http.DefaultClient.Do\<close> returns an error), and reports success for every
  response; the image fetcher returns an error result when its request cannot be
  built or the transport fails.
\<close>

theorem outbound_calls_ignore_the_status:
  "sendReply (answer_with_status code env) tok replyToken txt w = sendReply env tok replyToken txt w
   \<and> downloadImage (answer_with_status code env) tok imageID w = downloadImage env tok imageID w
   \<and> fst (sendReply env tok replyToken txt w) =
        (case url_Parse env ''https://api.line.me/v2/bot/message/reply'' of
           Some err \<Rightarrow> Some (Wrapped ''http.NewRequest failed; '' err)
         | None \<Rightarrow>
             (case http_Do env
                     \<lparr>Method = ''POST'', URL = ''https://api.line.me/v2/bot/message/reply'',
                      Header = [(''Authorization'', ''Bearer '' @ tok),
                                (''Content-Type'', ''application/json'')],
                      Body = Some (JSONText (Object
                        [(''replyToken'', String replyToken),
                         (''messages'', Array [Object [(''type'', String ''text''),
                                                       (''text'', String txt)]])]))\<rparr> of
                Inl err \<Rightarrow> Some (Wrapped ''http.DefaultClient.Get failed; '' err)
              | Inr resp \<Rightarrow> None))
   \<and> (url_Parse env (''https://api-data.line.me/v2/bot/message/'' @ imageID @ ''/content'') = Some err
        \<longrightarrow> fst (downloadImage env tok imageID w) =
              Returned (Inl (Wrapped ''http.NewRequest failed; '' err)))
   \<and> (url_Parse env (''https://api-data.line.me/v2/bot/message/'' @ imageID @ ''/content'') = None
        \<longrightarrow> http_Do env \<lparr>Method = ''GET'',
                   URL = ''https://api-data.line.me/v2/bot/message/'' @ imageID @ ''/content'',
                   Header = [(''Authorization'', ''Bearer '' @ tok)], Body = None\<rparr> = Inl err
        \<longrightarrow> fst (downloadImage env tok imageID w) =
              Returned (Inl (Wrapped ''http.DefaultClient.Get failed; '' err)))"
proof (intro conjI impI)
  show "sendReply (answer_with_status code env) tok replyToken txt w =
        sendReply env tok replyToken txt w"
    unfolding sendReply_cases
    by (simp add: answer_with_status_def split: option.splits sum.splits)
  show "downloadImage (answer_with_status code env) tok imageID w =
        downloadImage env tok imageID w"
    unfolding downloadImage_request
    by (simp add: answer_with_status_def split: option.splits sum.splits)
  show "fst (sendReply env tok replyToken txt w) =
        (case url_Parse env ''https://api.line.me/v2/bot/message/reply'' of
           Some err \<Rightarrow> Some (Wrapped ''http.NewRequest failed; '' err)
         | None \<Rightarrow>
             (case http_Do env
                     \<lparr>Method = ''POST'', URL = ''https://api.line.me/v2/bot/message/reply'',
                      Header = [(''Authorization'', ''Bearer '' @ tok),
                                (''Content-Type'', ''application/json'')],
                      Body = Some (JSONText (Object
                        [(''replyToken'', String replyToken),
                         (''messages'', Array [Object [(''type'', String ''text''),
                                                       (''text'', String txt)]])]))\<rparr> of
                Inl err \<Rightarrow> Some (Wrapped ''http.DefaultClient.Get failed; '' err)
              | Inr resp \<Rightarrow> None))"
    unfolding sendReply_cases by (simp split: option.splits)
next
  assume "url_Parse env (''https://api-data.line.me/v2/bot/message/'' @ imageID @ ''/content'') = Some err"
  then show "fst (downloadImage env tok imageID w) =
              Returned (Inl (Wrapped ''http.NewRequest failed; '' err))"
    unfolding downloadImage_request by simp
next
  assume "url_Parse env (''https://api-data.line.me/v2/bot/message/'' @ imageID @ ''/content'') = None"
    and "http_Do env \<lparr>Method = ''GET'',
                   URL = ''https://api-data.line.me/v2/bot/message/'' @ imageID @ ''/content'',
                   Header = [(''Authorization'', ''Bearer '' @ tok)], Body = None\<rparr> = Inl err"
  then show "fst (downloadImage env tok imageID w) =
              Returned (Inl (Wrapped ''http.DefaultClient.Get failed; '' err))"
    unfolding downloadImage_request by simp
qed

theorem outbound_calls_ignore_the_status_witness:
  "sendReply (answer_with_status 500 env_ok) ''tok'' ''r1'' ''cat'' w0 =
     sendReply env_ok ''tok'' ''r1'' ''cat'' w0 \<and>
   downloadImage (answer_with_status 500 env_ok) ''tok'' ''img1'' w0 =
     downloadImage env_ok ''tok'' ''img1'' w0 \<and>
   fst (sendReply env_500 ''tok'' ''r1'' ''cat'' w0) = None \<and>
   fst (sendReply env_unreachable ''tok'' ''r1'' ''cat'' w0) =
     Some (Wrapped ''http.DefaultClient.Get failed; '' (ServiceError ''dial tcp: i/o timeout'')) \<and>
   fst (sendReply env_bad_url ''tok'' ''r1'' ''cat'' w0) =
     Some (Wrapped ''http.NewRequest failed; '' (ServiceError ''parse: invalid URL'')) \<and>
   fst (downloadImage env_bad_url ''tok'' ''img1'' w0) =
     Returned (Inl (Wrapped ''http.NewRequest failed; '' (ServiceError ''parse: invalid URL''))) \<and>
   fst (downloadImage env_unreachable ''tok'' ''img1'' w0) =
     Returned (Inl (Wrapped ''http.DefaultClient.Get failed; '' (ServiceError ''dial tcp: i/o timeout'')))"
proof -
  note a = outbound_calls_ignore_the_status
             [of 500 env_ok "''tok''" "''r1''" "''cat''" w0 "''img1''" "ServiceError ''x''"]
  note b = outbound_calls_ignore_the_status
             [of 500 env_500 "''tok''" "''r1''" "''cat''" w0 "''img1''" "ServiceError ''x''"]
  note c = outbound_calls_ignore_the_status
             [of 500 env_unreachable "''tok''" "''r1''" "''cat''" w0 "''img1''"
                 "ServiceError ''dial tcp: i/o timeout''"]
  note d = outbound_calls_ignore_the_status
             [of 500 env_bad_url "''tok''" "''r1''" "''cat''" w0 "''img1''"
                 "ServiceError ''parse: invalid URL''"]
  have 1: "sendReply (answer_with_status 500 env_ok) ''tok'' ''r1'' ''cat'' w0 =
     sendReply env_ok ''tok'' ''r1'' ''cat'' w0"
    using a by (rule conjunct1)
  have 2: "downloadImage (answer_with_status 500 env_ok) ''tok'' ''img1'' w0 =
     downloadImage env_ok ''tok'' ''img1'' w0"
    using a by blast
  have 3: "fst (sendReply env_500 ''tok'' ''r1'' ''cat'' w0) = None"
    using conjunct1[OF conjunct2[OF conjunct2[OF b]]] by (simp add: env_500_def env_ok_def)
  have 4: "fst (sendReply env_unreachable ''tok'' ''r1'' ''cat'' w0) =
     Some (Wrapped ''http.DefaultClient.Get failed; '' (ServiceError ''dial tcp: i/o timeout''))"
    using conjunct1[OF conjunct2[OF conjunct2[OF c]]] by (simp add: env_unreachable_def env_ok_def)
  have 5: "fst (sendReply env_bad_url ''tok'' ''r1'' ''cat'' w0) =
     Some (Wrapped ''http.NewRequest failed; '' (ServiceError ''parse: invalid URL''))"
    using conjunct1[OF conjunct2[OF conjunct2[OF d]]] by (simp add: env_bad_url_def env_ok_def)
  have 6: "fst (downloadImage env_bad_url ''tok'' ''img1'' w0) =
     Returned (Inl (Wrapped ''http.NewRequest failed; '' (ServiceError ''parse: invalid URL'')))"
    using conjunct1[OF conjunct2[OF conjunct2[OF conjunct2[OF d]]]]
    by (simp add: env_bad_url_def env_ok_def)
  have 7: "fst (downloadImage env_unreachable ''tok'' ''img1'' w0) =
     Returned (Inl (Wrapped ''http.DefaultClient.Get failed; '' (ServiceError ''dial tcp: i/o timeout'')))"
    using conjunct2[OF conjunct2[OF conjunct2[OF conjunct2[OF c]]]]
    by (simp add: env_unreachable_def env_ok_def)
  from 1 2 3 4 5 6 7 show ?thesis by (intro conjI)
qed

text \<open>
  Claim C6 as stated fails: the reply endpoint answers 500, and the reply sender
  returns no error, nor does the send stage that called it.
\<close>

theorem non_2xx_reply_counterexample:
  "http_Do env_500
     \<lparr>Method = ''POST'', URL = ''https://api.line.me/v2/bot/message/reply'',
      Header = [(''Authorization'', ''Bearer tok''), (''Content-Type'', ''application/json'')],
      Body = Some (JSONText (Object
        [(''replyToken'', String ''r1''),
         (''messages'', Array [Object [(''type'', String ''text''),
                                       (''text'', String ''cat'')]])]))\<rparr> =
     Inr \<lparr>StatusCode = 500, resp_Body = NotJSON ''Internal Server Error''\<rparr> \<and>
   sendReply env_500 ''tok'' ''r1'' ''cat'' w0 =
     (None, w0\<lparr>requests :=
        [\<lparr>Method = ''POST'', URL = ''https://api.line.me/v2/bot/message/reply'',
          Header = [(''Authorization'', ''Bearer tok''), (''Content-Type'', ''application/json'')],
          Body = Some (JSONText (Object
            [(''replyToken'', String ''r1''),
             (''messages'', Array [Object [(''type'', String ''text''),
                                           (''text'', String ''cat'')]])]))\<rparr>]\<rparr>) \<and>
   fst (send env_500 evt_send_r1 w0) = None"
  by (simp add: env_500_def env_ok_def w0_def sendReply_def json_Marshal_replyFormat_def
      encode_replyFormatMessage_def http_NewRequest_def Header_Add_def Let_def
      send_def evt_send_r1_def getSecret_def
      json_Unmarshal_sendMessage_def decode_sendMessage_def decode_struct_def
      step_sendMessage_def findField_def zero_sendMessage_def saveError_def
      decode_slice_def elems_def)

end
